theory Spec2Isabelle
  imports Main
begin

section \<open>The libvirt image layer of nova (nova/virt/libvirt/image.py)\<close>

text \<open>
  A shallow embedding of \<^verbatim>\<open>nova/virt/libvirt/image.py\<close> (Python 2). Classes become
  datatypes and records, class methods become functions of the configuration
  (\<^verbatim>\<open>FLAGS\<close>), and everything a method does to the outside world (running a tool
  through \<^verbatim>\<open>utils.execute\<close>, sleeping, removing a file, calling libvirt) is
  recorded in a trace of events that is passed in and returned. What the outside world
  answers is a parameter of every effectful function (the record \<open>env\<close>): the answer may
  depend on everything that happened before. A raised exception is the \<open>Inl\<close> branch of
  a sum.
\<close>

subsection \<open>Exceptions\<close>

text \<open>
  The exceptions that can pass through this module. \<^verbatim>\<open>RuntimeError\<close> is what
  \<^verbatim>\<open>select_driver\<close> and \<^verbatim>\<open>LvmSnapshot.create\<close> raise themselves, with the message;
  \<^verbatim>\<open>ProcessExecutionError\<close> is the structured failure of \<^verbatim>\<open>utils.execute\<close>;
  the others come from the Python runtime (\<^verbatim>\<open>os.remove\<close>, tuple unpacking, dictionary
  and list indexing, \<^verbatim>\<open>int\<close>, attribute access on \<^verbatim>\<open>None\<close>) or from libvirt.
\<close>

datatype error =
    RuntimeError string
  | ProcessExecutionError string
  | OSError string
  | ValueError string
  | KeyError string
  | IndexError
  | AttributeError string
  | TypeError string
  | LibvirtError string
  | OtherException string

fun is_ProcessExecutionError :: "error \<Rightarrow> bool" where
  "is_ProcessExecutionError (ProcessExecutionError m) = True"
| "is_ProcessExecutionError e = False"

fun is_OSError :: "error \<Rightarrow> bool" where
  "is_OSError (OSError m) = True"
| "is_OSError e = False"

subsection \<open>Configuration\<close>

record flags =
  local_images_type :: string
  use_cow_images :: bool
  lvm_volume_group :: string
  instances_path :: string

subsection \<open>Driver selection\<close>

datatype driver = RawImageDriver | QcowImageDriver | LvmImageDriver

definition select_driver :: "flags \<Rightarrow> error + driver" where
  "select_driver FLAGS =
     (if local_images_type FLAGS = ''raw'' then Inr RawImageDriver
      else if local_images_type FLAGS = ''qcow'' then Inr QcowImageDriver
      else if local_images_type FLAGS = ''lvm'' then Inr LvmImageDriver
      else if local_images_type FLAGS = ''legacy'' then
        (if use_cow_images FLAGS then Inr QcowImageDriver else Inr RawImageDriver)
      else Inl (RuntimeError (''No driver found for: '' @ local_images_type FLAGS)))"

subsection \<open>Python string and path functions\<close>

text \<open>\<^verbatim>\<open>posixpath.join(a, *p)\<close>: a component that starts with a slash replaces what was
  joined so far; a component is appended directly when the path so far is empty or
  ends with a slash, and after a slash otherwise.\<close>

definition join_step :: "string \<Rightarrow> string \<Rightarrow> string" where
  "join_step path b =
     (if b \<noteq> [] \<and> hd b = CHR ''/'' then b
      else if path = [] \<or> last path = CHR ''/'' then path @ b
      else path @ ''/'' @ b)"

definition os_path_join :: "string \<Rightarrow> string list \<Rightarrow> string" where
  "os_path_join a p = foldl join_step a p"

text \<open>\<^verbatim>\<open>posixpath.basename(p)\<close>: what follows the last slash.\<close>

definition os_path_basename :: "string \<Rightarrow> string" where
  "os_path_basename p = rev (takeWhile (\<lambda>c. c \<noteq> CHR ''/'') (rev p))"

text \<open>\<^verbatim>\<open>s.split(sep)\<close> for a separator of one character.\<close>

fun split_on :: "char \<Rightarrow> string \<Rightarrow> string list" where
  "split_on sep [] = [[]]"
| "split_on sep (c # cs) =
     (if c = sep then [] # split_on sep cs
      else (case split_on sep cs of
              [] \<Rightarrow> [[c]]
            | w # ws \<Rightarrow> (c # w) # ws))"

text \<open>The whitespace of a Python 2 byte string: space, tab, newline, carriage return,
  vertical tab, form feed.\<close>

definition is_space :: "char \<Rightarrow> bool" where
  "is_space c = (c = CHR '' '' \<or> c = CHR 0x09 \<or> c = CHR 0x0A \<or> c = CHR 0x0D
                 \<or> c = CHR 0x0B \<or> c = CHR 0x0C)"

text \<open>\<^verbatim>\<open>s.strip()\<close> and \<^verbatim>\<open>s.split()\<close> (no argument: split at runs of whitespace, no
  empty words).\<close>

definition strip :: "string \<Rightarrow> string" where
  "strip s = rev (dropWhile is_space (rev (dropWhile is_space s)))"

fun split_at_space :: "string \<Rightarrow> string list" where
  "split_at_space [] = [[]]"
| "split_at_space (c # cs) =
     (if is_space c then [] # split_at_space cs
      else (case split_at_space cs of
              [] \<Rightarrow> [[c]]
            | w # ws \<Rightarrow> (c # w) # ws))"

definition split_ws :: "string \<Rightarrow> string list" where
  "split_ws s = filter (\<lambda>w. w \<noteq> []) (split_at_space s)"

text \<open>\<^verbatim>\<open>int(s)\<close> on a word without whitespace (the only use here is on a word that
  \<^verbatim>\<open>split()\<close> returned): an optional sign and at least one decimal digit, and
  \<^verbatim>\<open>ValueError\<close> for anything else.\<close>

definition is_digit :: "char \<Rightarrow> bool" where
  "is_digit c = (c \<in> set ''0123456789'')"

definition digit_val :: "char \<Rightarrow> nat" where
  "digit_val c = of_char c - (48 :: nat)"

definition nat_of_digits :: "string \<Rightarrow> nat" where
  "nat_of_digits ds = foldl (\<lambda>n c. 10 * n + digit_val c) 0 ds"

definition all_digits :: "string \<Rightarrow> bool" where
  "all_digits ds = (ds \<noteq> [] \<and> list_all is_digit ds)"

definition py_int :: "string \<Rightarrow> error + int" where
  "py_int s =
     (case s of
        [] \<Rightarrow> Inl (ValueError ''invalid literal for int() with base 10'')
      | c # cs \<Rightarrow>
          if c = CHR ''-'' \<and> all_digits cs then Inr (- int (nat_of_digits cs))
          else if c = CHR ''+'' \<and> all_digits cs then Inr (int (nat_of_digits cs))
          else if all_digits s then Inr (int (nat_of_digits s))
          else Inl (ValueError ''invalid literal for int() with base 10''))"

text \<open>\<^verbatim>\<open>'%d' % n\<close>: the decimal digits of an integer, with a minus sign when negative.\<close>

definition digit_char :: "nat \<Rightarrow> char" where
  "digit_char d = ''0123456789'' ! d"

fun dec_of_nat :: "nat \<Rightarrow> string" where
  "dec_of_nat n = (if n < 10 then [digit_char n] else dec_of_nat (n div 10) @ [digit_char (n mod 10)])"

declare dec_of_nat.simps [simp del]

definition format_d :: "int \<Rightarrow> string" where
  "format_d i = (if i < 0 then ''-'' @ dec_of_nat (nat (- i)) else dec_of_nat (nat i))"

text \<open>Python's truth value of an optional string argument: \<^verbatim>\<open>None\<close> and the empty
  string are false.\<close>

definition truthy :: "string option \<Rightarrow> bool" where
  "truthy s = (case s of None \<Rightarrow> False | Some x \<Rightarrow> x \<noteq> [])"

subsection \<open>Images\<close>

text \<open>
  The three image classes. \<^verbatim>\<open>RawImage\<close> and \<^verbatim>\<open>QcowImage\<close> hold \<^verbatim>\<open>image_path\<close>,
  which is \<^verbatim>\<open>None\<close> when \<^verbatim>\<open>list_images\<close> wraps a disk source that has no
  \<^verbatim>\<open>file\<close> attribute. \<^verbatim>\<open>LvmImage\<close> holds \<^verbatim>\<open>vg\<close>, \<^verbatim>\<open>lv\<close> and \<^verbatim>\<open>_path\<close>, which
  its constructor computes.
\<close>

datatype image =
    RawImage "string option"
  | QcowImage "string option"
  | LvmImage string string string

definition new_LvmImage :: "string \<Rightarrow> string \<Rightarrow> image" where
  "new_LvmImage vg lv = LvmImage vg lv (os_path_join ''/dev'' [vg, lv])"

fun path :: "image \<Rightarrow> string option" where
  "path (RawImage image_path) = image_path"
| "path (QcowImage image_path) = image_path"
| "path (LvmImage vg lv lvm_path) = Some lvm_path"

subsection \<open>The domain handle\<close>

text \<open>
  A \<^verbatim>\<open>libvirt.virDomain\<close>, as far as this module looks at it: the
  \<^verbatim>\<open>devices/disk/source\<close> elements of its XML description in document order, each
  with its attributes (\<^verbatim>\<open>element.get(name)\<close> is \<^verbatim>\<open>None\<close> for a missing attribute),
  and whether the domain is active.
\<close>

type_synonym element = "(string \<times> string) list"

definition element_get :: "element \<Rightarrow> string \<Rightarrow> string option" where
  "element_get e name = map_of e name"

record virt_domain =
  disk_sources :: "element list"
  isActive :: bool

subsection \<open>Image drivers\<close>

definition lv_name :: "string \<Rightarrow> string option \<Rightarrow> string option \<Rightarrow> string" where
  "lv_name instance_name image_name suffix =
     (let lv = instance_name;
          lv = (case image_name of
                  Some n \<Rightarrow> if truthy image_name then lv @ ''-'' @ n else lv
                | None \<Rightarrow> lv);
          lv = (case suffix of
                  Some s \<Rightarrow> if truthy suffix then lv @ ''-'' @ s else lv
                | None \<Rightarrow> lv)
      in lv)"

definition LvmImageDriver_image_path :: "string \<Rightarrow> string \<Rightarrow> string" where
  "LvmImageDriver_image_path vg lv = os_path_join ''/dev'' [vg, lv]"

definition LvmImageDriver_create_image ::
  "flags \<Rightarrow> string \<Rightarrow> string option \<Rightarrow> string option \<Rightarrow> image" where
  "LvmImageDriver_create_image FLAGS instance_name image_name suffix =
     new_LvmImage (lvm_volume_group FLAGS) (lv_name instance_name image_name suffix)"

definition LvmImageDriver_list_disks :: "virt_domain \<Rightarrow> string option list" where
  "LvmImageDriver_list_disks virt_domain =
     map (\<lambda>element. element_get element ''dev'') (disk_sources virt_domain)"

text \<open>The loop of \<^verbatim>\<open>LvmImageDriver.list_images\<close>, with the list \<^verbatim>\<open>images\<close> it
  appends to.\<close>

fun LvmImageDriver_list_images_loop ::
  "flags \<Rightarrow> string option list \<Rightarrow> image list \<Rightarrow> image list" where
  "LvmImageDriver_list_images_loop FLAGS [] images = images"
| "LvmImageDriver_list_images_loop FLAGS (lv_path # rest) images =
     (case lv_path of
        None \<Rightarrow> LvmImageDriver_list_images_loop FLAGS rest images
      | Some p \<Rightarrow>
          LvmImageDriver_list_images_loop FLAGS rest
            (images @ [LvmImageDriver_create_image FLAGS (os_path_basename p) None None]))"

definition LvmImageDriver_list_images :: "flags \<Rightarrow> virt_domain \<Rightarrow> image list" where
  "LvmImageDriver_list_images FLAGS virt_domain =
     LvmImageDriver_list_images_loop FLAGS (LvmImageDriver_list_disks virt_domain) []"

text \<open>\<^verbatim>\<open>_FileImageDriver._image_path\<close>: \<^verbatim>\<open>os.path.join\<close> raises
  \<^verbatim>\<open>AttributeError\<close> on a component that is \<^verbatim>\<open>None\<close>.\<close>

definition FileImageDriver_image_path ::
  "flags \<Rightarrow> string \<Rightarrow> string option \<Rightarrow> string option \<Rightarrow> error + string" where
  "FileImageDriver_image_path FLAGS instance_name image_name suffix =
     (case image_name of
        None \<Rightarrow> Inl (AttributeError ''startswith'')
      | Some n \<Rightarrow>
          (let image_path = os_path_join (instances_path FLAGS) [instance_name, n]
           in case suffix of
                Some s \<Rightarrow> if truthy suffix then Inr (image_path @ s) else Inr image_path
              | None \<Rightarrow> Inr image_path))"

definition FileImageDriver_list_disks :: "virt_domain \<Rightarrow> string option list" where
  "FileImageDriver_list_disks virt_domain =
     map (\<lambda>element. element_get element ''file'') (disk_sources virt_domain)"

definition create_image ::
  "driver \<Rightarrow> flags \<Rightarrow> string \<Rightarrow> string option \<Rightarrow> string option \<Rightarrow> error + image" where
  "create_image cls FLAGS instance_name image_name suffix =
     (case cls of
        LvmImageDriver \<Rightarrow> Inr (LvmImageDriver_create_image FLAGS instance_name image_name suffix)
      | RawImageDriver \<Rightarrow>
          (case FileImageDriver_image_path FLAGS instance_name image_name suffix of
             Inl e \<Rightarrow> Inl e
           | Inr image_path \<Rightarrow> Inr (RawImage (Some image_path)))
      | QcowImageDriver \<Rightarrow>
          (case FileImageDriver_image_path FLAGS instance_name image_name suffix of
             Inl e \<Rightarrow> Inl e
           | Inr image_path \<Rightarrow> Inr (QcowImage (Some image_path))))"

definition list_images :: "driver \<Rightarrow> flags \<Rightarrow> virt_domain \<Rightarrow> image list" where
  "list_images cls FLAGS virt_domain =
     (case cls of
        LvmImageDriver \<Rightarrow> LvmImageDriver_list_images FLAGS virt_domain
      | RawImageDriver \<Rightarrow> map RawImage (FileImageDriver_list_disks virt_domain)
      | QcowImageDriver \<Rightarrow> map QcowImage (FileImageDriver_list_disks virt_domain))"

text \<open>\<^verbatim>\<open>image_info\<close> returns a dictionary with four keys.\<close>

definition image_info ::
  "driver \<Rightarrow> flags \<Rightarrow> string \<Rightarrow> string option \<Rightarrow> string option \<Rightarrow> error + (string \<rightharpoonup> string)" where
  "image_info cls FLAGS instance_name image_name suffix =
     (case cls of
        LvmImageDriver \<Rightarrow>
          Inr (map_of
            [(''device_type'', ''block''),
             (''source_type'', ''dev''),
             (''driver_type'', ''raw''),
             (''disk'', LvmImageDriver_image_path (lvm_volume_group FLAGS)
                          (lv_name instance_name image_name suffix))])
      | RawImageDriver \<Rightarrow>
          (case FileImageDriver_image_path FLAGS instance_name image_name suffix of
             Inl e \<Rightarrow> Inl e
           | Inr image_path \<Rightarrow>
               Inr (map_of
                 [(''device_type'', ''file''),
                  (''source_type'', ''file''),
                  (''driver_type'', ''raw''),
                  (''disk'', image_path)]))
      | QcowImageDriver \<Rightarrow>
          (case FileImageDriver_image_path FLAGS instance_name image_name suffix of
             Inl e \<Rightarrow> Inl e
           | Inr image_path \<Rightarrow>
               Inr (map_of
                 [(''device_type'', ''file''),
                  (''source_type'', ''file''),
                  (''driver_type'', ''qcow2''),
                  (''disk'', image_path)])))"

subsection \<open>The outside world\<close>

text \<open>
  What the module does to the outside world, in the order in which it happens:
  \<^verbatim>\<open>utils.execute(*command, run_as_root=...)\<close>, \<^verbatim>\<open>time.sleep(seconds)\<close>,
  \<^verbatim>\<open>os.remove(path)\<close>, \<^verbatim>\<open>virt_domain.snapshotCreateXML(description, 0)\<close>,
  \<^verbatim>\<open>snapshot_ptr.delete(0)\<close> and \<^verbatim>\<open>LOG.error(message)\<close>. The informational
  log lines are left out: they change neither results nor control flow.
\<close>

type_synonym command = "string list"

datatype event =
    Exec command bool
  | Sleep nat
  | Remove string
  | SnapshotCreateXML string
  | SnapshotDelete nat
  | LogError string

type_synonym trace = "event list"

text \<open>
  The answers of the outside world, each a function of what happened so far:
  \<^verbatim>\<open>utils.execute\<close> returns the pair \<^verbatim>\<open>(stdout, stderr)\<close> or raises (a
  \<^verbatim>\<open>ProcessExecutionError\<close> on a nonzero exit status, or anything else);
  \<^verbatim>\<open>os.remove\<close> and the deletion of a libvirt snapshot return nothing or raise;
  \<^verbatim>\<open>snapshotCreateXML\<close> returns a snapshot handle or raises.
\<close>

record env =
  execute_result :: "trace \<Rightarrow> command \<Rightarrow> bool \<Rightarrow> error + (string \<times> string)"
  remove_result :: "trace \<Rightarrow> string \<Rightarrow> error option"
  snapshotCreateXML_result :: "trace \<Rightarrow> virt_domain \<Rightarrow> string \<Rightarrow> error + nat"
  snapshot_delete_result :: "trace \<Rightarrow> nat \<Rightarrow> error option"

definition utils_execute ::
  "env \<Rightarrow> command \<Rightarrow> bool \<Rightarrow> trace \<Rightarrow> (error + (string \<times> string)) \<times> trace" where
  "utils_execute env command run_as_root t =
     (execute_result env t command run_as_root, t @ [Exec command run_as_root])"

definition time_sleep :: "nat \<Rightarrow> trace \<Rightarrow> trace" where
  "time_sleep seconds t = t @ [Sleep seconds]"

text \<open>\<^verbatim>\<open>os.remove(path)\<close> raises \<^verbatim>\<open>TypeError\<close> on \<^verbatim>\<open>None\<close> before it touches the
  file system.\<close>

definition os_remove :: "env \<Rightarrow> string option \<Rightarrow> trace \<Rightarrow> error option \<times> trace" where
  "os_remove env p t =
     (case p of
        None \<Rightarrow> (Some (TypeError ''coercing to Unicode: need string or buffer, NoneType found''), t)
      | Some f \<Rightarrow> (remove_result env t f, t @ [Remove f]))"

text \<open>\<^verbatim>\<open>str(e)\<close>, which \<^verbatim>\<open>'%s' % e\<close> prints.\<close>

fun str_of_error :: "error \<Rightarrow> string" where
  "str_of_error (RuntimeError m) = m"
| "str_of_error (ProcessExecutionError m) = m"
| "str_of_error (OSError m) = m"
| "str_of_error (ValueError m) = m"
| "str_of_error (KeyError m) = m"
| "str_of_error IndexError = ''list index out of range''"
| "str_of_error (AttributeError m) = m"
| "str_of_error (TypeError m) = m"
| "str_of_error (LibvirtError m) = m"
| "str_of_error (OtherException m) = m"

subsection \<open>File images: deletion\<close>

text \<open>\<^verbatim>\<open>_FileImage.delete\<close>: only \<^verbatim>\<open>OSError\<close> is caught.\<close>

definition FileImage_delete :: "env \<Rightarrow> image \<Rightarrow> trace \<Rightarrow> (error + unit) \<times> trace" where
  "FileImage_delete env self t =
     (case os_remove env (path self) t of
        (None, t1) \<Rightarrow> (Inr (), t1)
      | (Some e, t1) \<Rightarrow>
          if is_OSError e
          then (Inr (), t1 @ [LogError (''Error during image delete: '' @ str_of_error e)])
          else (Inl e, t1))"

subsection \<open>LVM images\<close>

text \<open>
  \<^verbatim>\<open>LvmImage.__try_execute\<close>. The loop \<^verbatim>\<open>while True\<close> runs again only after
  \<^verbatim>\<open>tries\<close> was incremented to less than 3, so it ends.
\<close>

function try_execute_loop ::
  "env \<Rightarrow> command \<Rightarrow> bool \<Rightarrow> nat \<Rightarrow> trace \<Rightarrow> (error + bool) \<times> trace" where
  "try_execute_loop env command run_as_root tries t =
     (case utils_execute env command run_as_root t of
        (Inr out, t1) \<Rightarrow> (Inr True, t1)
      | (Inl e, t1) \<Rightarrow>
          if is_ProcessExecutionError e then
            (if tries + 1 \<ge> 3 then (Inl e, t1)
             else try_execute_loop env command run_as_root (tries + 1)
                    (time_sleep ((tries + 1) ^ 2) t1))
          else (Inl e, t1))"
  by pat_completeness auto
termination
  by (relation "measure (\<lambda>(env, command, run_as_root, tries, t). 3 - tries)") auto

declare try_execute_loop.simps [simp del]

definition try_execute :: "env \<Rightarrow> command \<Rightarrow> bool \<Rightarrow> trace \<Rightarrow> (error + bool) \<times> trace" where
  "try_execute env command run_as_root t = try_execute_loop env command run_as_root 0 t"

text \<open>
  \<^verbatim>\<open>LvmImage._image_size\<close>, in two parts: the dictionary that the loop over the
  lines of the output builds, and what is read from it. A line that is not empty must
  split at colons into exactly two parts (\<^verbatim>\<open>k, v = line.split(':')\<close> raises
  \<^verbatim>\<open>ValueError\<close> otherwise).
\<close>

fun image_size_lines :: "string list \<Rightarrow> (string \<rightharpoonup> string) \<Rightarrow> error + (string \<rightharpoonup> string)" where
  "image_size_lines [] data = Inr data"
| "image_size_lines (line # lines) data =
     (if line = [] then image_size_lines lines data
      else (case split_on CHR '':'' line of
              [] \<Rightarrow> Inl (ValueError ''need more than 0 values to unpack'')
            | [k] \<Rightarrow> Inl (ValueError ''need more than 1 value to unpack'')
            | [k, v] \<Rightarrow> image_size_lines lines (data(k \<mapsto> strip v))
            | k # v # w # ws \<Rightarrow> Inl (ValueError ''too many values to unpack'')))"

definition image_size_of_output :: "string \<Rightarrow> error + int" where
  "image_size_of_output out =
     (case image_size_lines (split_on CHR 0x0A out) Map.empty of
        Inl e \<Rightarrow> Inl e
      | Inr data \<Rightarrow>
          (case data ''virtual size'' of
             None \<Rightarrow> Inl (KeyError ''virtual size'')
           | Some v \<Rightarrow>
               (case split_on CHR ''('' v of
                  a # b # rest \<Rightarrow>
                    (case split_ws b of
                       [] \<Rightarrow> Inl IndexError
                     | size' # ws \<Rightarrow> py_int size')
                | _ \<Rightarrow> Inl IndexError)))"

definition LvmImage_image_size :: "env \<Rightarrow> string \<Rightarrow> trace \<Rightarrow> (error + int) \<times> trace" where
  "LvmImage_image_size env image_path t =
     (case utils_execute env [''qemu-img'', ''info'', image_path] True t of
        (Inl e, t1) \<Rightarrow> (Inl e, t1)
      | (Inr img_info, t1) \<Rightarrow> (image_size_of_output (fst img_info), t1))"

text \<open>\<^verbatim>\<open>LvmImage.create_from_raw\<close>, of the image with the fields \<^verbatim>\<open>vg\<close>, \<^verbatim>\<open>lv\<close>
  and \<^verbatim>\<open>_path\<close>.\<close>

definition lvcreate_command :: "string \<Rightarrow> string \<Rightarrow> int \<Rightarrow> command" where
  "lvcreate_command vg lv img_size = [''lvcreate'', ''-L'', format_d img_size @ ''b'', ''-n'', lv, vg]"

definition LvmImage_create_from_raw ::
  "env \<Rightarrow> string \<Rightarrow> string \<Rightarrow> string \<Rightarrow> string \<Rightarrow> trace \<Rightarrow> (error + unit) \<times> trace" where
  "LvmImage_create_from_raw env vg lv lvm_path base t =
     (case LvmImage_image_size env base t of
        (Inl e, t1) \<Rightarrow> (Inl e, t1)
      | (Inr img_size, t1) \<Rightarrow>
          (case try_execute env (lvcreate_command vg lv img_size) True t1 of
             (Inl e, t2) \<Rightarrow> (Inl e, t2)
           | (Inr ok, t2) \<Rightarrow>
               (case utils_execute env [''qemu-img'', ''convert'', base, ''-O'', ''raw'', lvm_path] True t2 of
                  (Inl e, t3) \<Rightarrow> (Inl e, t3)
                | (Inr out, t3) \<Rightarrow> (Inr (), t3))))"

text \<open>\<^verbatim>\<open>LvmImage.__volume_not_present\<close>, \<^verbatim>\<open>LvmImage.__delete_image\<close> and
  \<^verbatim>\<open>LvmImage.delete\<close>, which returns \<^verbatim>\<open>True\<close> when the volume is not present and
  \<^verbatim>\<open>None\<close> otherwise.\<close>

definition volume_not_present :: "env \<Rightarrow> string \<Rightarrow> trace \<Rightarrow> bool \<times> trace" where
  "volume_not_present env volume t =
     (case utils_execute env [''lvdisplay'', volume] True t of
        (Inl e, t1) \<Rightarrow> (True, t1)
      | (Inr out, t1) \<Rightarrow> (False, t1))"

definition delete_image :: "env \<Rightarrow> string \<Rightarrow> trace \<Rightarrow> (error + bool option) \<times> trace" where
  "delete_image env volume t =
     (case try_execute env [''lvremove'', ''-f'', volume] True t of
        (Inl e, t1) \<Rightarrow> (Inl e, t1)
      | (Inr ok, t1) \<Rightarrow> (Inr None, t1))"

definition LvmImage_delete :: "env \<Rightarrow> string \<Rightarrow> trace \<Rightarrow> (error + bool option) \<times> trace" where
  "LvmImage_delete env lvm_path t =
     (let volume = lvm_path in
      case volume_not_present env volume t of
        (not_present, t1) \<Rightarrow>
          if not_present then (Inr (Some True), t1)
          else
            (case utils_execute env [''lvdisplay'', ''--noheading'', ''-C'', ''-o'', ''Attr'', volume] True t1 of
               (Inl e, t2) \<Rightarrow> (Inl e, t2)
             | (Inr (out, err), t2) \<Rightarrow>
                 if out \<noteq> [] \<and> (CHR ''o'' \<in> set (strip out) \<or> CHR ''O'' \<in> set (strip out)) then
                   (case utils_execute env [''dmsetup'', ''remove'', ''-c'', volume] False t2 of
                      (Inl e, t3) \<Rightarrow> (Inl e, t3)
                    | (Inr out', t3) \<Rightarrow> delete_image env volume t3)
                 else delete_image env volume t2))"

subsection \<open>Snapshots\<close>

text \<open>
  The hypervisor snapshots hold the domain, the snapshot name, the source path and,
  once created, the handle \<^verbatim>\<open>_snapshot_ptr\<close>. An LVM snapshot holds the domain, the
  snapshot name, \<^verbatim>\<open>_snapshot_path\<close>, \<^verbatim>\<open>_snapshot_size\<close>, \<^verbatim>\<open>_source_path\<close> and
  \<^verbatim>\<open>_force_live_snapshot\<close>.
\<close>

datatype snapshot =
    RawSnapshot virt_domain string string "nat option"
  | QcowSnapshot virt_domain string string "nat option"
  | LvmSnapshot virt_domain string string int string bool

definition new_RawSnapshot :: "virt_domain \<Rightarrow> string \<Rightarrow> string \<Rightarrow> snapshot" where
  "new_RawSnapshot virt_domain snapshot_name source_path =
     RawSnapshot virt_domain snapshot_name source_path None"

definition new_QcowSnapshot :: "virt_domain \<Rightarrow> string \<Rightarrow> string \<Rightarrow> snapshot" where
  "new_QcowSnapshot virt_domain snapshot_name source_path =
     QcowSnapshot virt_domain snapshot_name source_path None"

definition new_LvmSnapshot ::
  "virt_domain \<Rightarrow> string \<Rightarrow> string \<Rightarrow> int \<Rightarrow> string \<Rightarrow> bool \<Rightarrow> snapshot" where
  "new_LvmSnapshot virt_domain volume_group snapshot_name snapshot_size source_path force_live_snapshot =
     LvmSnapshot virt_domain snapshot_name (os_path_join ''/dev'' [volume_group, snapshot_name])
       snapshot_size source_path force_live_snapshot"

definition snapshot_description :: "string \<Rightarrow> string" where
  "snapshot_description snapshot_name =
     [CHR 0x0A] @ ''        <domainsnapshot>'' @ [CHR 0x0A]
     @ ''            <name>'' @ snapshot_name @ ''</name>'' @ [CHR 0x0A]
     @ ''        </domainsnapshot>'' @ [CHR 0x0A] @ ''        ''"

definition snapshotCreateXML ::
  "env \<Rightarrow> virt_domain \<Rightarrow> string \<Rightarrow> trace \<Rightarrow> (error + nat) \<times> trace" where
  "snapshotCreateXML env virt_domain description t =
     (snapshotCreateXML_result env t virt_domain description, t @ [SnapshotCreateXML description])"

definition lvm_snapshot_command :: "int \<Rightarrow> string \<Rightarrow> string \<Rightarrow> command" where
  "lvm_snapshot_command snapshot_size snapshot_name source_path =
     [''lvcreate'', ''-L'' @ format_d snapshot_size @ ''b'', ''-s'', ''-n'', snapshot_name, source_path]"

fun create :: "env \<Rightarrow> snapshot \<Rightarrow> trace \<Rightarrow> (error + snapshot) \<times> trace" where
  "create env (RawSnapshot virt_domain snapshot_name source_path ptr) t =
     (case snapshotCreateXML env virt_domain (snapshot_description snapshot_name) t of
        (Inl e, t1) \<Rightarrow> (Inl e, t1)
      | (Inr p, t1) \<Rightarrow> (Inr (RawSnapshot virt_domain snapshot_name source_path (Some p)), t1))"
| "create env (QcowSnapshot virt_domain snapshot_name source_path ptr) t =
     (case snapshotCreateXML env virt_domain (snapshot_description snapshot_name) t of
        (Inl e, t1) \<Rightarrow> (Inl e, t1)
      | (Inr p, t1) \<Rightarrow> (Inr (QcowSnapshot virt_domain snapshot_name source_path (Some p)), t1))"
| "create env (LvmSnapshot virt_domain snapshot_name snapshot_path snapshot_size source_path
       force_live_snapshot) t =
     (if \<not> force_live_snapshot \<and> isActive virt_domain
      then (Inl (RuntimeError ''VM must be suspended before doing LVM snapshot''), t)
      else
        (case utils_execute env (lvm_snapshot_command snapshot_size snapshot_name source_path) True t of
           (Inl e, t1) \<Rightarrow> (Inl e, t1)
         | (Inr out, t1) \<Rightarrow>
             (Inr (LvmSnapshot virt_domain snapshot_name snapshot_path snapshot_size source_path
                     force_live_snapshot), t1)))"

definition libvirt_snapshot_delete :: "env \<Rightarrow> nat option \<Rightarrow> trace \<Rightarrow> (error + unit) \<times> trace" where
  "libvirt_snapshot_delete env ptr t =
     (case ptr of
        None \<Rightarrow> (Inl (AttributeError ''_snapshot_ptr''), t)
      | Some p \<Rightarrow>
          (case snapshot_delete_result env t p of
             Some e \<Rightarrow> (Inl e, t @ [SnapshotDelete p])
           | None \<Rightarrow> (Inr (), t @ [SnapshotDelete p])))"

fun delete :: "env \<Rightarrow> snapshot \<Rightarrow> trace \<Rightarrow> (error + unit) \<times> trace" where
  "delete env (RawSnapshot virt_domain snapshot_name source_path ptr) t =
     libvirt_snapshot_delete env ptr t"
| "delete env (QcowSnapshot virt_domain snapshot_name source_path ptr) t =
     libvirt_snapshot_delete env ptr t"
| "delete env (LvmSnapshot virt_domain snapshot_name snapshot_path snapshot_size source_path
       force_live_snapshot) t =
     (case utils_execute env [''lvremove'', ''-f'', snapshot_path] True t of
        (Inl e, t1) \<Rightarrow> (Inl e, t1)
      | (Inr out, t1) \<Rightarrow> (Inr (), t1))"

definition libvirt_convert_to_raw ::
  "env \<Rightarrow> string \<Rightarrow> string \<Rightarrow> string \<Rightarrow> trace \<Rightarrow> (error + unit) \<times> trace" where
  "libvirt_convert_to_raw env format source_path destination t =
     (case utils_execute env
             [''qemu-img'', ''convert'', ''-f'', format, ''-O'', ''raw'', ''-s'',
              os_path_basename destination, source_path, destination] True t of
        (Inl e, t1) \<Rightarrow> (Inl e, t1)
      | (Inr out, t1) \<Rightarrow> (Inr (), t1))"

fun convert_to_raw :: "env \<Rightarrow> string \<Rightarrow> snapshot \<Rightarrow> trace \<Rightarrow> (error + unit) \<times> trace" where
  "convert_to_raw env destination (RawSnapshot virt_domain snapshot_name source_path ptr) t =
     libvirt_convert_to_raw env ''raw'' source_path destination t"
| "convert_to_raw env destination (QcowSnapshot virt_domain snapshot_name source_path ptr) t =
     libvirt_convert_to_raw env ''qcow2'' source_path destination t"
| "convert_to_raw env destination (LvmSnapshot virt_domain snapshot_name snapshot_path snapshot_size
       source_path force_live_snapshot) t =
     (case utils_execute env [''dd'', ''if='' @ snapshot_path, ''of='' @ destination, ''bs=1M''] True t of
        (Inl e, t1) \<Rightarrow> (Inl e, t1)
      | (Inr out, t1) \<Rightarrow> (Inr (), t1))"

text \<open>
  \<^verbatim>\<open>Snapshot.__enter__\<close> returns \<^verbatim>\<open>self.create()\<close>; \<^verbatim>\<open>Snapshot.__exit__\<close> calls
  \<^verbatim>\<open>self.delete()\<close> and returns \<^verbatim>\<open>None\<close>, which is false: it does not suppress the
  exception of the block.
\<close>

definition snapshot_enter :: "env \<Rightarrow> snapshot \<Rightarrow> trace \<Rightarrow> (error + snapshot) \<times> trace" where
  "snapshot_enter env self t = create env self t"

definition snapshot_exit :: "env \<Rightarrow> snapshot \<Rightarrow> trace \<Rightarrow> (error + bool) \<times> trace" where
  "snapshot_exit env self t =
     (case delete env self t of
        (Inl e, t1) \<Rightarrow> (Inl e, t1)
      | (Inr u, t1) \<Rightarrow> (Inr False, t1))"

text \<open>
  The statement \<^verbatim>\<open>with snapshot as s: block\<close> of Python 2: \<^verbatim>\<open>__enter__\<close> first
  (when it raises, neither the block nor \<^verbatim>\<open>__exit__\<close> runs); then the block, on the
  object that \<^verbatim>\<open>__enter__\<close> returned; then \<^verbatim>\<open>__exit__\<close>, whether the block returned
  or raised. When the block raised, its exception is raised again unless \<^verbatim>\<open>__exit__\<close>
  returned a true value; an exception of \<^verbatim>\<open>__exit__\<close> itself replaces it. The block
  is any function of the snapshot and the trace; the result of the statement is
  \<^verbatim>\<open>Some\<close> of the value of the block, or \<^verbatim>\<open>None\<close> when an exception was suppressed.
\<close>

definition with_snapshot ::
  "env \<Rightarrow> snapshot \<Rightarrow> (snapshot \<Rightarrow> trace \<Rightarrow> (error + 'a) \<times> trace) \<Rightarrow> trace
     \<Rightarrow> (error + 'a option) \<times> trace" where
  "with_snapshot env mgr block t =
     (case snapshot_enter env mgr t of
        (Inl e, t1) \<Rightarrow> (Inl e, t1)
      | (Inr s, t1) \<Rightarrow>
          (case block s t1 of
             (Inl e, t2) \<Rightarrow>
               (case snapshot_exit env s t2 of
                  (Inl e', t3) \<Rightarrow> (Inl e', t3)
                | (Inr suppress, t3) \<Rightarrow> if suppress then (Inr None, t3) else (Inl e, t3))
           | (Inr v, t2) \<Rightarrow>
               (case snapshot_exit env s t2 of
                  (Inl e', t3) \<Rightarrow> (Inl e', t3)
                | (Inr suppress, t3) \<Rightarrow> (Inr (Some v), t3))))"

text \<open>The event that \<^verbatim>\<open>delete()\<close> of a snapshot leaves in the trace, and the seconds
  slept in a trace.\<close>

fun is_delete_of :: "snapshot \<Rightarrow> event \<Rightarrow> bool" where
  "is_delete_of (RawSnapshot virt_domain snapshot_name source_path ptr) ev =
     (case ptr of None \<Rightarrow> False | Some p \<Rightarrow> ev = SnapshotDelete p)"
| "is_delete_of (QcowSnapshot virt_domain snapshot_name source_path ptr) ev =
     (case ptr of None \<Rightarrow> False | Some p \<Rightarrow> ev = SnapshotDelete p)"
| "is_delete_of (LvmSnapshot virt_domain snapshot_name snapshot_path snapshot_size source_path
       force_live_snapshot) ev =
     (ev = Exec [''lvremove'', ''-f'', snapshot_path] True)"

fun slept :: "trace \<Rightarrow> nat" where
  "slept [] = 0"
| "slept (Sleep n # t) = n + slept t"
| "slept (ev # t) = slept t"

subsection \<open>Notation of the specification\<close>

text \<open>
  The sources of a device description that are present, in order; a directory path that
  is not empty and does not end with a slash; a path segment that \<^verbatim>\<open>os.path.join\<close>
  appends after a slash (not empty, no slash at either end); a path that does not start
  with a slash; the optional parts of a name, \<^verbatim>\<open>[suffix]\<close> and \<^verbatim>\<open>[-name]\<close>.
\<close>

definition present :: "'a option list \<Rightarrow> 'a list" where
  "present xs = List.map_filter (\<lambda>x. x) xs"

definition no_trailing_slash :: "string \<Rightarrow> bool" where
  "no_trailing_slash s = (s \<noteq> [] \<and> last s \<noteq> CHR ''/'')"

definition plain_segment :: "string \<Rightarrow> bool" where
  "plain_segment s = (s \<noteq> [] \<and> hd s \<noteq> CHR ''/'' \<and> last s \<noteq> CHR ''/'')"

definition relative :: "string \<Rightarrow> bool" where
  "relative s = (s = [] \<or> hd s \<noteq> CHR ''/'')"

definition opt_suffix :: "string option \<Rightarrow> string" where
  "opt_suffix s = (case s of None \<Rightarrow> [] | Some x \<Rightarrow> x)"

definition opt_dash :: "string option \<Rightarrow> string" where
  "opt_dash s = (case s of None \<Rightarrow> [] | Some x \<Rightarrow> if x = [] then [] else ''-'' @ x)"


text \<open>A device path that lies under \<^verbatim>\<open>/dev/<vg>/\<close>.\<close>

definition under_volume_group :: "string \<Rightarrow> string \<Rightarrow> bool" where
  "under_volume_group vg p = (take (length (''/dev/'' @ vg @ ''/'')) p = ''/dev/'' @ vg @ ''/'')"

subsection \<open>Environments for the examples\<close>

text \<open>
  An outside world that follows a script: the \<open>k\<close>-th run of a command (with the same
  \<^verbatim>\<open>run_as_root\<close>) gets the \<open>k\<close>-th answer that the script lists for the command,
  and succeeds with empty output once the list is used up; \<^verbatim>\<open>os.remove\<close> and the
  deletion of a libvirt snapshot always get the given answers; \<^verbatim>\<open>snapshotCreateXML\<close>
  returns a fresh handle.
\<close>

definition scripted_env ::
  "(command \<times> (error + (string \<times> string)) list) list \<Rightarrow> error option \<Rightarrow> error option \<Rightarrow> env" where
  "scripted_env script remove_answer snapshot_delete_answer =
     \<lparr>execute_result =
        (\<lambda>t c r.
           (let k = length (filter (\<lambda>ev. ev = Exec c r) t);
                answers = (case map_of script c of None \<Rightarrow> [] | Some as \<Rightarrow> as)
            in if k < length answers then answers ! k else Inr ([], []))),
      remove_result = (\<lambda>t f. remove_answer),
      snapshotCreateXML_result = (\<lambda>t d description. Inr (length t)),
      snapshot_delete_result = (\<lambda>t p. snapshot_delete_answer)\<rparr>"

subsection \<open>The commands of LvmImage.delete\<close>





section \<open>Theorems\<close>

text \<open>
  Claim C2. \<^verbatim>\<open>select_driver\<close> is a function of the configuration alone: it reads
  \<^verbatim>\<open>local_images_type\<close> and \<^verbatim>\<open>use_cow_images\<close>, and nothing else decides its result
  (it has no trace argument: it runs no tool and changes nothing). The value
  \<^verbatim>\<open>raw\<close> gives RawImageDriver, \<^verbatim>\<open>qcow\<close> QcowImageDriver, \<^verbatim>\<open>lvm\<close> LvmImageDriver,
  and \<^verbatim>\<open>legacy\<close> gives QcowImageDriver when \<^verbatim>\<open>use_cow_images\<close> is set and
  RawImageDriver otherwise. Every other value fails with the error that names the value
  (the spec's ConfigurationError; in the source a \<^verbatim>\<open>RuntimeError\<close> whose message ends
  with the value).
\<close>

theorem select_driver_policy:
  "(local_images_type FLAGS = ''raw'' \<longrightarrow> select_driver FLAGS = Inr RawImageDriver)
   \<and> (local_images_type FLAGS = ''qcow'' \<longrightarrow> select_driver FLAGS = Inr QcowImageDriver)
   \<and> (local_images_type FLAGS = ''lvm'' \<longrightarrow> select_driver FLAGS = Inr LvmImageDriver)
   \<and> (local_images_type FLAGS = ''legacy'' \<longrightarrow>
        select_driver FLAGS = Inr (if use_cow_images FLAGS then QcowImageDriver else RawImageDriver))
   \<and> (local_images_type FLAGS \<notin> {''raw'', ''qcow'', ''lvm'', ''legacy''} \<longrightarrow>
        select_driver FLAGS = Inl (RuntimeError (''No driver found for: '' @ local_images_type FLAGS)))
   \<and> (local_images_type FLAGS = local_images_type FLAGS' \<and> use_cow_images FLAGS = use_cow_images FLAGS'
        \<longrightarrow> select_driver FLAGS = select_driver FLAGS')"
  by (simp add: select_driver_def)

theorem select_driver_policy_witness:
  "select_driver \<lparr>local_images_type = ''raw'', use_cow_images = False,
                   lvm_volume_group = ''vg0'', instances_path = ''/var/lib/nova/instances''\<rparr>
     = Inr RawImageDriver
   \<and> select_driver \<lparr>local_images_type = ''qcow'', use_cow_images = False,
                   lvm_volume_group = ''vg0'', instances_path = ''/var/lib/nova/instances''\<rparr>
     = Inr QcowImageDriver
   \<and> select_driver \<lparr>local_images_type = ''lvm'', use_cow_images = False,
                   lvm_volume_group = ''vg0'', instances_path = ''/var/lib/nova/instances''\<rparr>
     = Inr LvmImageDriver
   \<and> select_driver \<lparr>local_images_type = ''legacy'', use_cow_images = True,
                   lvm_volume_group = ''vg0'', instances_path = ''/var/lib/nova/instances''\<rparr>
     = Inr QcowImageDriver
   \<and> select_driver \<lparr>local_images_type = ''legacy'', use_cow_images = False,
                   lvm_volume_group = ''vg0'', instances_path = ''/var/lib/nova/instances''\<rparr>
     = Inr RawImageDriver
   \<and> select_driver \<lparr>local_images_type = ''zfs'', use_cow_images = True,
                   lvm_volume_group = ''vg0'', instances_path = ''/var/lib/nova/instances''\<rparr>
     = Inl (RuntimeError ''No driver found for: zfs'')
   \<and> select_driver \<lparr>local_images_type = ''legacy'', use_cow_images = True,
                   lvm_volume_group = ''vg0'', instances_path = ''/var/lib/nova/instances''\<rparr>
     = select_driver \<lparr>local_images_type = ''legacy'', use_cow_images = True,
                   lvm_volume_group = ''other'', instances_path = ''/srv''\<rparr>"
proof -
  let ?f = "\<lambda>ty cow. \<lparr>local_images_type = ty, use_cow_images = cow,
                   lvm_volume_group = ''vg0'', instances_path = ''/var/lib/nova/instances''\<rparr>"
  let ?g = "\<lparr>local_images_type = ''legacy'', use_cow_images = True,
                   lvm_volume_group = ''other'', instances_path = ''/srv''\<rparr>"
  have raw: "select_driver (?f ''raw'' False) = Inr RawImageDriver"
    using select_driver_policy [of "?f ''raw'' False" "?f ''raw'' False"] by simp
  have qcow: "select_driver (?f ''qcow'' False) = Inr QcowImageDriver"
    using select_driver_policy [of "?f ''qcow'' False" "?f ''qcow'' False"] by simp
  have lvm: "select_driver (?f ''lvm'' False) = Inr LvmImageDriver"
    using select_driver_policy [of "?f ''lvm'' False" "?f ''lvm'' False"] by simp
  have cow: "select_driver (?f ''legacy'' True) = Inr QcowImageDriver"
    using select_driver_policy [of "?f ''legacy'' True" ?g] by simp
  have nocow: "select_driver (?f ''legacy'' False) = Inr RawImageDriver"
    using select_driver_policy [of "?f ''legacy'' False" "?f ''legacy'' False"] by simp
  have other: "select_driver (?f ''zfs'' True) = Inl (RuntimeError ''No driver found for: zfs'')"
    using select_driver_policy [of "?f ''zfs'' True" "?f ''zfs'' True"] by simp
  have same: "select_driver (?f ''legacy'' True) = select_driver ?g"
  proof -
    have "local_images_type (?f ''legacy'' True) = local_images_type ?g
          \<and> use_cow_images (?f ''legacy'' True) = use_cow_images ?g"
      by simp
    then show ?thesis
      using select_driver_policy [of "?f ''legacy'' True" ?g] by blast
  qed
  from raw qcow lvm cow nocow other same show ?thesis
    by (intro conjI)
qed

subsection \<open>Paths and names\<close>

lemma list_images_loop_eq:
  "LvmImageDriver_list_images_loop FLAGS xs images =
     images @ map (\<lambda>p. LvmImageDriver_create_image FLAGS (os_path_basename p) None None) (present xs)"
  by (induction xs arbitrary: images) (auto simp: present_def split: option.splits)

lemma basename_no_slash: "CHR ''/'' \<notin> set (os_path_basename p)"
  by (auto simp: os_path_basename_def dest: set_takeWhileD)

lemma basename_relative: "relative (os_path_basename p)"
proof (cases "os_path_basename p")
  case Nil
  then show ?thesis by (simp add: relative_def)
next
  case (Cons c cs)
  then have "c \<in> set (os_path_basename p)" by simp
  with basename_no_slash [of p] have "c \<noteq> CHR ''/''" by metis
  with Cons show ?thesis by (simp add: relative_def)
qed

lemma join_dev_plain:
  "plain_segment vg \<Longrightarrow> relative lv \<Longrightarrow> os_path_join ''/dev'' [vg, lv] = ''/dev/'' @ vg @ ''/'' @ lv"
  by (auto simp: os_path_join_def join_step_def plain_segment_def relative_def)

lemma join_root_plain:
  "no_trailing_slash root \<Longrightarrow> plain_segment i \<Longrightarrow> relative n \<Longrightarrow>
   os_path_join root [i, n] = root @ ''/'' @ i @ ''/'' @ n"
  by (auto simp: os_path_join_def join_step_def plain_segment_def relative_def no_trailing_slash_def)

lemma lv_name_format: "lv_name i n s = i @ opt_dash n @ opt_dash s"
  by (simp add: lv_name_def opt_dash_def truthy_def Let_def split: option.splits)

lemma lv_name_relative: "relative i \<Longrightarrow> relative (lv_name i n s)"
  by (auto simp: lv_name_format relative_def opt_dash_def hd_append split: option.splits)


subsection \<open>Listing the images of a domain\<close>

lemma lvm_list_images_eq:
  "list_images LvmImageDriver FLAGS virt_domain =
     map (\<lambda>p. new_LvmImage (lvm_volume_group FLAGS) (os_path_basename p))
       (present (map (\<lambda>e. element_get e ''dev'') (disk_sources virt_domain)))"
  by (simp add: list_images_def LvmImageDriver_list_images_def LvmImageDriver_list_disks_def
      list_images_loop_eq LvmImageDriver_create_image_def lv_name_def)

lemma present_all_Some: "\<forall>x \<in> set xs. x \<noteq> None \<Longrightarrow> map Some (present xs) = xs"
  by (induction xs) (auto simp: present_def)

lemma path_new_LvmImage: "path (new_LvmImage vg lv) = Some (os_path_join ''/dev'' [vg, lv])"
  by (simp add: new_LvmImage_def)

text \<open>
  Claim C10. \<^verbatim>\<open>LvmImageDriver.list_images\<close> does not wrap the device path of the
  domain: of every disk source with a \<^verbatim>\<open>dev\<close> attribute it keeps the basename and
  builds the image under the configured volume group. For a volume group name that is a
  plain path segment, the path of every returned image is
  \<^verbatim>\<open>/dev/<lvm_volume_group>/<basename>\<close>, in the order of the description, and the
  image built for a device that does not lie under \<^verbatim>\<open>/dev/<lvm_volume_group>/\<close> has
  a path different from that device.
\<close>

theorem lvm_list_images_rebuilds_path:
  assumes "plain_segment (lvm_volume_group FLAGS)"
  shows "map path (list_images LvmImageDriver FLAGS virt_domain) =
           map (\<lambda>p. Some (''/dev/'' @ lvm_volume_group FLAGS @ ''/'' @ os_path_basename p))
             (present (map (\<lambda>e. element_get e ''dev'') (disk_sources virt_domain)))
         \<and> (\<forall>p \<in> set (present (map (\<lambda>e. element_get e ''dev'') (disk_sources virt_domain))).
               \<not> under_volume_group (lvm_volume_group FLAGS) p \<longrightarrow>
               path (LvmImageDriver_create_image FLAGS (os_path_basename p) None None) \<noteq> Some p)"
proof -
  let ?vg = "lvm_volume_group FLAGS"
  have p: "path (new_LvmImage ?vg (os_path_basename q)) = Some (''/dev/'' @ ?vg @ ''/'' @ os_path_basename q)" for q
    using assms by (simp add: path_new_LvmImage join_dev_plain basename_relative)
  have first: "map path (list_images LvmImageDriver FLAGS virt_domain) =
           map (\<lambda>p. Some (''/dev/'' @ ?vg @ ''/'' @ os_path_basename p))
             (present (map (\<lambda>e. element_get e ''dev'') (disk_sources virt_domain)))"
    by (simp add: lvm_list_images_eq p comp_def)
  have second: "path (LvmImageDriver_create_image FLAGS (os_path_basename q) None None) \<noteq> Some q"
    if "\<not> under_volume_group ?vg q" for q
  proof
    assume "path (LvmImageDriver_create_image FLAGS (os_path_basename q) None None) = Some q"
    then have "q = ''/dev/'' @ ?vg @ ''/'' @ os_path_basename q"
      using p [of q] by (simp add: LvmImageDriver_create_image_def lv_name_def)
    then have "take (length (''/dev/'' @ ?vg @ ''/'')) q = ''/dev/'' @ ?vg @ ''/''"
      by (metis append.assoc append_eq_conv_conj)
    with that show False by (simp add: under_volume_group_def)
  qed
  from first second show ?thesis by blast
qed

theorem lvm_list_images_rebuilds_path_witness:
  "plain_segment ''nova''
   \<and> map path (list_images LvmImageDriver
        \<lparr>local_images_type = ''lvm'', use_cow_images = False,
           lvm_volume_group = ''nova'', instances_path = ''/var/lib/nova/instances''\<rparr>
        \<lparr>disk_sources = [[(''dev'', ''/dev/vg0/i1'')]], isActive = True\<rparr>)
      = [Some ''/dev/nova/i1'']
   \<and> \<not> under_volume_group ''nova'' ''/dev/vg0/i1''
   \<and> path (LvmImageDriver_create_image
        \<lparr>local_images_type = ''lvm'', use_cow_images = False,
           lvm_volume_group = ''nova'', instances_path = ''/var/lib/nova/instances''\<rparr>
        (os_path_basename ''/dev/vg0/i1'') None None) \<noteq> Some ''/dev/vg0/i1''"
proof -
  let ?F = "\<lparr>local_images_type = ''lvm'', use_cow_images = False,
           lvm_volume_group = ''nova'', instances_path = ''/var/lib/nova/instances''\<rparr>"
  let ?D = "\<lparr>disk_sources = [[(''dev'', ''/dev/vg0/i1'')]], isActive = True\<rparr>"
  have plain: "plain_segment (lvm_volume_group ?F)"
    by (simp add: plain_segment_def)
  have devs: "present (map (\<lambda>e. element_get e ''dev'') (disk_sources ?D)) = [''/dev/vg0/i1'']"
    by (simp add: present_def element_get_def)
  have base: "os_path_basename ''/dev/vg0/i1'' = ''i1''"
    by (simp add: os_path_basename_def)
  have nu: "\<not> under_volume_group ''nova'' ''/dev/vg0/i1''"
    by (simp add: under_volume_group_def)
  from lvm_list_images_rebuilds_path [OF plain, of ?D] devs base nu plain
  show ?thesis by simp
qed

text \<open>
  Claim C1 (as amended). \<^verbatim>\<open>LvmImageDriver.list_images\<close> returns one image for every
  disk source that has a \<^verbatim>\<open>dev\<close> attribute, in the order of the description and
  without removing duplicates; the image is the \<^verbatim>\<open>LvmImage\<close> of the configured volume
  group that is named by the basename of the device. \<^verbatim>\<open>RawImageDriver\<close> and
  \<^verbatim>\<open>QcowImageDriver\<close> return, on a description whose sources all have a \<^verbatim>\<open>file\<close>
  attribute, one image for every source, wrapping that file, in order and without
  removing duplicates. On the description with one source without \<^verbatim>\<open>dev\<close> and one
  with \<^verbatim>\<open>dev="/dev/vg0/i1"\<close>, and with \<^verbatim>\<open>vg0\<close> as the configured volume group, the
  LVM driver returns exactly one image, of path \<^verbatim>\<open>/dev/vg0/i1\<close>.
\<close>

theorem list_images_per_driver:
  "list_images LvmImageDriver FLAGS virt_domain =
     map (\<lambda>p. new_LvmImage (lvm_volume_group FLAGS) (os_path_basename p))
       (present (map (\<lambda>e. element_get e ''dev'') (disk_sources virt_domain)))
   \<and> ((\<forall>e \<in> set (disk_sources virt_domain). element_get e ''file'' \<noteq> None) \<longrightarrow>
        list_images RawImageDriver FLAGS virt_domain =
          map (\<lambda>p. RawImage (Some p))
            (present (map (\<lambda>e. element_get e ''file'') (disk_sources virt_domain)))
        \<and> list_images QcowImageDriver FLAGS virt_domain =
          map (\<lambda>p. QcowImage (Some p))
            (present (map (\<lambda>e. element_get e ''file'') (disk_sources virt_domain))))
   \<and> (lvm_volume_group FLAGS = ''vg0''
        \<and> map (\<lambda>e. element_get e ''dev'') (disk_sources virt_domain) = [None, Some ''/dev/vg0/i1'']
        \<longrightarrow> map path (list_images LvmImageDriver FLAGS virt_domain) = [Some ''/dev/vg0/i1''])"
proof -
  let ?files = "map (\<lambda>e. element_get e ''file'') (disk_sources virt_domain)"
  have files: "map f ?files = map (\<lambda>p. f (Some p)) (present ?files)"
    if "\<forall>e \<in> set (disk_sources virt_domain). element_get e ''file'' \<noteq> None" for f :: "string option \<Rightarrow> image"
  proof -
    from that have "\<forall>x \<in> set ?files. x \<noteq> None" by auto
    then have "map Some (present ?files) = ?files" by (rule present_all_Some)
    then have "map f ?files = map f (map Some (present ?files))" by simp
    then show ?thesis by (simp add: comp_def)
  qed
  have raw: "list_images RawImageDriver FLAGS virt_domain = map RawImage ?files"
    and qcow: "list_images QcowImageDriver FLAGS virt_domain = map QcowImage ?files"
    by (simp_all add: list_images_def FileImageDriver_list_disks_def)
  have c1: "list_images LvmImageDriver FLAGS virt_domain =
     map (\<lambda>p. new_LvmImage (lvm_volume_group FLAGS) (os_path_basename p))
       (present (map (\<lambda>e. element_get e ''dev'') (disk_sources virt_domain)))"
    by (rule lvm_list_images_eq)
  have c2: "(\<forall>e \<in> set (disk_sources virt_domain). element_get e ''file'' \<noteq> None) \<longrightarrow>
        list_images RawImageDriver FLAGS virt_domain =
          map (\<lambda>p. RawImage (Some p)) (present ?files)
        \<and> list_images QcowImageDriver FLAGS virt_domain =
          map (\<lambda>p. QcowImage (Some p)) (present ?files)"
    using files [of RawImage] files [of QcowImage] by (simp only: raw qcow) blast
  have c3: "lvm_volume_group FLAGS = ''vg0''
        \<and> map (\<lambda>e. element_get e ''dev'') (disk_sources virt_domain) = [None, Some ''/dev/vg0/i1'']
        \<longrightarrow> map path (list_images LvmImageDriver FLAGS virt_domain) = [Some ''/dev/vg0/i1'']"
    by (simp add: c1 present_def path_new_LvmImage os_path_basename_def
        os_path_join_def join_step_def comp_def)
  from c1 c2 c3 show ?thesis by (intro conjI)
qed

theorem list_images_per_driver_witness:
  "element_get [(''file'', ''/srv/i1/disk'')] ''file'' \<noteq> None
   \<and> list_images RawImageDriver
        \<lparr>local_images_type = ''raw'', use_cow_images = False,
           lvm_volume_group = ''vg0'', instances_path = ''/srv''\<rparr>
        \<lparr>disk_sources = [[(''file'', ''/srv/i1/disk'')], [(''file'', ''/srv/i1/disk'')]], isActive = True\<rparr>
      = [RawImage (Some ''/srv/i1/disk''), RawImage (Some ''/srv/i1/disk'')]
   \<and> map path (list_images LvmImageDriver
        \<lparr>local_images_type = ''raw'', use_cow_images = False,
           lvm_volume_group = ''vg0'', instances_path = ''/srv''\<rparr>
        \<lparr>disk_sources = [[], [(''dev'', ''/dev/vg0/i1'')]], isActive = True\<rparr>)
      = [Some ''/dev/vg0/i1'']"
proof -
  let ?F = "\<lparr>local_images_type = ''raw'', use_cow_images = False,
           lvm_volume_group = ''vg0'', instances_path = ''/srv''\<rparr>"
  let ?D1 = "\<lparr>disk_sources = [[(''file'', ''/srv/i1/disk'')], [(''file'', ''/srv/i1/disk'')]], isActive = True\<rparr>"
  let ?D2 = "\<lparr>disk_sources = [[], [(''dev'', ''/dev/vg0/i1'')]], isActive = True\<rparr>"
  have all: "\<forall>e \<in> set (disk_sources ?D1). element_get e ''file'' \<noteq> None"
    by (simp add: element_get_def)
  have files: "present (map (\<lambda>e. element_get e ''file'') (disk_sources ?D1)) = [''/srv/i1/disk'', ''/srv/i1/disk'']"
    by (simp add: present_def element_get_def)
  have devs: "map (\<lambda>e. element_get e ''dev'') (disk_sources ?D2) = [None, Some ''/dev/vg0/i1'']"
    by (simp add: element_get_def)
  from list_images_per_driver [of ?F ?D1, THEN conjunct2, THEN conjunct1] all
  have "list_images RawImageDriver ?F ?D1 =
          map (\<lambda>p. RawImage (Some p)) (present (map (\<lambda>e. element_get e ''file'') (disk_sources ?D1)))"
    by blast
  then have raw: "list_images RawImageDriver ?F ?D1 = [RawImage (Some ''/srv/i1/disk''), RawImage (Some ''/srv/i1/disk'')]"
    by (simp only: files list.map)
  have "lvm_volume_group ?F = ''vg0''
        \<and> map (\<lambda>e. element_get e ''dev'') (disk_sources ?D2) = [None, Some ''/dev/vg0/i1'']"
    using devs by simp
  with list_images_per_driver [of ?F ?D2, THEN conjunct2, THEN conjunct2]
  have lvm: "map path (list_images LvmImageDriver ?F ?D2) = [Some ''/dev/vg0/i1'']"
    by (rule mp)
  have src: "element_get [(''file'', ''/srv/i1/disk'')] ''file'' \<noteq> None"
    by (simp add: element_get_def)
  from src raw lvm show ?thesis by (intro conjI)
qed

text \<open>
  The claim C1 as stated fails twice. The file drivers do not filter: a source without a
  \<^verbatim>\<open>file\<close> attribute gives an image that wraps \<^verbatim>\<open>None\<close>, so two images are
  returned where the claim has one. And the LVM driver does not wrap the source: with
  \<^verbatim>\<open>nova\<close> as the configured volume group, the image for \<^verbatim>\<open>/dev/vg0/i1\<close> has the
  path \<^verbatim>\<open>/dev/nova/i1\<close>.
\<close>

theorem list_images_counterexample:
  "map path (list_images RawImageDriver
        \<lparr>local_images_type = ''raw'', use_cow_images = False,
           lvm_volume_group = ''vg0'', instances_path = ''/srv''\<rparr>
        \<lparr>disk_sources = [[], [(''file'', ''/srv/i1/disk'')]], isActive = True\<rparr>)
     = [None, Some ''/srv/i1/disk'']
   \<and> map path (list_images RawImageDriver
        \<lparr>local_images_type = ''raw'', use_cow_images = False,
           lvm_volume_group = ''vg0'', instances_path = ''/srv''\<rparr>
        \<lparr>disk_sources = [[], [(''file'', ''/srv/i1/disk'')]], isActive = True\<rparr>)
     \<noteq> [Some ''/srv/i1/disk'']
   \<and> map path (list_images LvmImageDriver
        \<lparr>local_images_type = ''lvm'', use_cow_images = False,
           lvm_volume_group = ''nova'', instances_path = ''/srv''\<rparr>
        \<lparr>disk_sources = [[], [(''dev'', ''/dev/vg0/i1'')]], isActive = True\<rparr>)
     = [Some ''/dev/nova/i1'']
   \<and> map path (list_images LvmImageDriver
        \<lparr>local_images_type = ''lvm'', use_cow_images = False,
           lvm_volume_group = ''nova'', instances_path = ''/srv''\<rparr>
        \<lparr>disk_sources = [[], [(''dev'', ''/dev/vg0/i1'')]], isActive = True\<rparr>)
     \<noteq> [Some ''/dev/vg0/i1'']"
  by (simp add: list_images_def FileImageDriver_list_disks_def element_get_def
      LvmImageDriver_list_images_def LvmImageDriver_list_disks_def
      LvmImageDriver_create_image_def lv_name_def new_LvmImage_def
      os_path_basename_def os_path_join_def join_step_def)

subsection \<open>Image paths\<close>

lemma file_image_path_Some:
  "FileImageDriver_image_path FLAGS i (Some nm) s =
     Inr (os_path_join (instances_path FLAGS) [i, nm] @ opt_suffix s)"
  by (auto simp: FileImageDriver_image_path_def opt_suffix_def truthy_def Let_def split: option.splits)

lemma image_info_disk_eq_path:
  "map_sum id (\<lambda>info. info ''disk'') (image_info cls FLAGS i n s) =
     map_sum id path (create_image cls FLAGS i n s)"
  by (cases cls)
     (simp_all add: image_info_def create_image_def LvmImageDriver_create_image_def
       LvmImageDriver_image_path_def path_new_LvmImage split: sum.splits)

text \<open>
  Claim C5. For every driver and all arguments, \<^verbatim>\<open>image_info\<close> and \<^verbatim>\<open>create_image\<close>
  fail together (the file drivers, on an \<^verbatim>\<open>image_name\<close> that is \<^verbatim>\<open>None\<close>) or the
  \<^verbatim>\<open>disk\<close> entry of the one is \<^verbatim>\<open>path()\<close> of the other. The common value is
  \<^verbatim>\<open>os.path.join(instances_path, instance_name, image_name)\<close> followed by the suffix
  for the file drivers, and \<^verbatim>\<open>os.path.join('/dev', lvm_volume_group, name)\<close> with
  the name \<^verbatim>\<open><instance_name>[-image_name][-suffix]\<close> for LVM. Where the joined
  components are plain (the directory does not end with a slash, the instance name is a
  plain segment, the image name does not start with a slash) this is the text
  \<^verbatim>\<open><instances_path>/<instance_name>/<image_name>[suffix]\<close>, and
  \<^verbatim>\<open>/dev/<lvm_volume_group>/<name>\<close> for LVM.
\<close>

theorem image_info_disk_is_path:
  "map_sum id (\<lambda>info. info ''disk'') (image_info cls FLAGS i n s) =
     map_sum id path (create_image cls FLAGS i n s)
   \<and> map_sum id path (create_image RawImageDriver FLAGS i (Some nm) s) =
       Inr (Some (os_path_join (instances_path FLAGS) [i, nm] @ opt_suffix s))
   \<and> map_sum id path (create_image QcowImageDriver FLAGS i (Some nm) s) =
       Inr (Some (os_path_join (instances_path FLAGS) [i, nm] @ opt_suffix s))
   \<and> map_sum id path (create_image LvmImageDriver FLAGS i n s) =
       Inr (Some (os_path_join ''/dev'' [lvm_volume_group FLAGS, i @ opt_dash n @ opt_dash s]))
   \<and> (no_trailing_slash (instances_path FLAGS) \<and> plain_segment i \<and> relative nm \<longrightarrow>
        map_sum id (\<lambda>info. info ''disk'') (image_info RawImageDriver FLAGS i (Some nm) s) =
          Inr (Some (instances_path FLAGS @ ''/'' @ i @ ''/'' @ nm @ opt_suffix s))
        \<and> map_sum id (\<lambda>info. info ''disk'') (image_info QcowImageDriver FLAGS i (Some nm) s) =
          Inr (Some (instances_path FLAGS @ ''/'' @ i @ ''/'' @ nm @ opt_suffix s)))
   \<and> (plain_segment (lvm_volume_group FLAGS) \<and> relative i \<longrightarrow>
        map_sum id (\<lambda>info. info ''disk'') (image_info LvmImageDriver FLAGS i n s) =
          Inr (Some (''/dev/'' @ lvm_volume_group FLAGS @ ''/'' @ i @ opt_dash n @ opt_dash s)))"
proof -
  have raw: "map_sum id path (create_image RawImageDriver FLAGS i (Some nm) s) =
       Inr (Some (os_path_join (instances_path FLAGS) [i, nm] @ opt_suffix s))"
    by (simp add: create_image_def file_image_path_Some)
  have qcow: "map_sum id path (create_image QcowImageDriver FLAGS i (Some nm) s) =
       Inr (Some (os_path_join (instances_path FLAGS) [i, nm] @ opt_suffix s))"
    by (simp add: create_image_def file_image_path_Some)
  have lvm: "map_sum id path (create_image LvmImageDriver FLAGS i n s) =
       Inr (Some (os_path_join ''/dev'' [lvm_volume_group FLAGS, i @ opt_dash n @ opt_dash s]))"
    by (simp add: create_image_def LvmImageDriver_create_image_def path_new_LvmImage lv_name_format)
  have file_lit: "no_trailing_slash (instances_path FLAGS) \<and> plain_segment i \<and> relative nm \<longrightarrow>
        map_sum id (\<lambda>info. info ''disk'') (image_info RawImageDriver FLAGS i (Some nm) s) =
          Inr (Some (instances_path FLAGS @ ''/'' @ i @ ''/'' @ nm @ opt_suffix s))
        \<and> map_sum id (\<lambda>info. info ''disk'') (image_info QcowImageDriver FLAGS i (Some nm) s) =
          Inr (Some (instances_path FLAGS @ ''/'' @ i @ ''/'' @ nm @ opt_suffix s))"
    by (simp only: image_info_disk_eq_path raw qcow) (simp add: join_root_plain)
  have lvm_lit: "plain_segment (lvm_volume_group FLAGS) \<and> relative i \<longrightarrow>
        map_sum id (\<lambda>info. info ''disk'') (image_info LvmImageDriver FLAGS i n s) =
          Inr (Some (''/dev/'' @ lvm_volume_group FLAGS @ ''/'' @ i @ opt_dash n @ opt_dash s))"
    using lv_name_relative [of i n s] join_dev_plain [of "lvm_volume_group FLAGS" "lv_name i n s"]
    by (simp only: image_info_disk_eq_path lvm) (simp add: lv_name_format)
  from image_info_disk_eq_path [of cls FLAGS i n s] raw qcow lvm file_lit lvm_lit
  show ?thesis by (intro conjI)
qed

theorem image_info_disk_is_path_witness:
  "no_trailing_slash ''/var/lib/nova/instances'' \<and> plain_segment ''instance-1'' \<and> relative ''disk''
   \<and> map_sum id (\<lambda>info. info ''disk'') (image_info QcowImageDriver
        \<lparr>local_images_type = ''qcow'', use_cow_images = True,
           lvm_volume_group = ''vg0'', instances_path = ''/var/lib/nova/instances''\<rparr>
        ''instance-1'' (Some ''disk'') (Some ''.local''))
      = Inr (Some ''/var/lib/nova/instances/instance-1/disk.local'')
   \<and> plain_segment ''vg0'' \<and> relative ''instance-1''
   \<and> map_sum id (\<lambda>info. info ''disk'') (image_info LvmImageDriver
        \<lparr>local_images_type = ''qcow'', use_cow_images = True,
           lvm_volume_group = ''vg0'', instances_path = ''/var/lib/nova/instances''\<rparr>
        ''instance-1'' (Some ''disk'') None)
      = Inr (Some ''/dev/vg0/instance-1-disk'')"
proof -
  let ?F = "\<lparr>local_images_type = ''qcow'', use_cow_images = True,
           lvm_volume_group = ''vg0'', instances_path = ''/var/lib/nova/instances''\<rparr>"
  note inst1 = image_info_disk_is_path [of QcowImageDriver ?F "''instance-1''" "Some ''disk''" "Some ''.local''" "''disk''"]
  note inst2 = image_info_disk_is_path [of LvmImageDriver ?F "''instance-1''" "Some ''disk''" "None" "''disk''"]
  have p1: "no_trailing_slash ''/var/lib/nova/instances''" and p2: "plain_segment ''instance-1''"
    and p3: "relative ''disk''" and p4: "plain_segment ''vg0''" and p5: "relative ''instance-1''"
    by (simp_all add: plain_segment_def relative_def no_trailing_slash_def)
  have h5: "no_trailing_slash (instances_path ?F) \<and> plain_segment ''instance-1'' \<and> relative ''disk''"
    using p1 p2 p3 by simp
  have h6: "plain_segment (lvm_volume_group ?F) \<and> relative ''instance-1''"
    using p4 p5 by simp
  note c5 = inst1 [THEN conjunct2, THEN conjunct2, THEN conjunct2, THEN conjunct2, THEN conjunct1,
      THEN mp, OF h5, THEN conjunct2]
  note c6 = inst2 [THEN conjunct2, THEN conjunct2, THEN conjunct2, THEN conjunct2, THEN conjunct2,
      THEN mp, OF h6]
  have q: "map_sum id (\<lambda>info. info ''disk'') (image_info QcowImageDriver ?F ''instance-1'' (Some ''disk'') (Some ''.local''))
      = Inr (Some ''/var/lib/nova/instances/instance-1/disk.local'')"
    using c5 by (simp add: opt_suffix_def)
  have l: "map_sum id (\<lambda>info. info ''disk'') (image_info LvmImageDriver ?F ''instance-1'' (Some ''disk'') None)
      = Inr (Some ''/dev/vg0/instance-1-disk'')"
    using c6 by (simp add: opt_dash_def)
  from p1 p2 p3 q p4 p5 l show ?thesis by (intro conjI)
qed

subsection \<open>Retrying a command\<close>

lemma try_execute_loop_success:
  "execute_result env t c r = Inr out \<Longrightarrow> try_execute_loop env c r k t = (Inr True, t @ [Exec c r])"
  by (subst try_execute_loop.simps) (simp add: utils_execute_def)

lemma try_execute_loop_other:
  "execute_result env t c r = Inl e \<Longrightarrow> \<not> is_ProcessExecutionError e \<Longrightarrow>
   try_execute_loop env c r k t = (Inl e, t @ [Exec c r])"
  by (subst try_execute_loop.simps) (simp add: utils_execute_def)

lemma try_execute_loop_last:
  "execute_result env t c r = Inl e \<Longrightarrow> is_ProcessExecutionError e \<Longrightarrow>
   try_execute_loop env c r 2 t = (Inl e, t @ [Exec c r])"
  by (subst try_execute_loop.simps) (simp add: utils_execute_def)

lemma try_execute_loop_retry0:
  "execute_result env t c r = Inl e \<Longrightarrow> is_ProcessExecutionError e \<Longrightarrow>
   try_execute_loop env c r 0 t = try_execute_loop env c r 1 (t @ [Exec c r, Sleep 1])"
  by (subst try_execute_loop.simps) (simp add: utils_execute_def time_sleep_def)

lemma try_execute_loop_retry1:
  "execute_result env t c r = Inl e \<Longrightarrow> is_ProcessExecutionError e \<Longrightarrow>
   try_execute_loop env c r 1 t = try_execute_loop env c r 2 (t @ [Exec c r, Sleep 4])"
proof -
  assume a: "execute_result env t c r = Inl e" "is_ProcessExecutionError e"
  have n: "(1::nat) + 1 = 2" "(2::nat) ^ 2 = 4" by simp_all
  have "try_execute_loop env c r 1 t =
          try_execute_loop env c r (1 + 1) (time_sleep ((1 + 1) ^ 2) (t @ [Exec c r]))"
    by (subst try_execute_loop.simps) (simp add: utils_execute_def a)
  then show ?thesis by (simp only: n time_sleep_def append.simps append_assoc)
qed

lemma try_execute_first:
  "execute_result env t c r = Inr out \<Longrightarrow> try_execute env c r t = (Inr True, t @ [Exec c r])"
  by (simp add: try_execute_def try_execute_loop_success)

lemma try_execute_other:
  "execute_result env t c r = Inl e \<Longrightarrow> \<not> is_ProcessExecutionError e \<Longrightarrow>
   try_execute env c r t = (Inl e, t @ [Exec c r])"
  by (simp add: try_execute_def try_execute_loop_other)

lemma try_execute_second:
  assumes "is_ProcessExecutionError e1" "execute_result env t c r = Inl e1"
    and "execute_result env (t @ [Exec c r, Sleep 1]) c r = Inr out"
  shows "try_execute env c r t = (Inr True, t @ [Exec c r, Sleep 1, Exec c r])"
proof -
  have "try_execute env c r t = try_execute_loop env c r 1 (t @ [Exec c r, Sleep 1])"
    unfolding try_execute_def using assms(2,1) by (rule try_execute_loop_retry0)
  also have "\<dots> = (Inr True, (t @ [Exec c r, Sleep 1]) @ [Exec c r])"
    using assms(3) by (rule try_execute_loop_success)
  finally show ?thesis by simp
qed

lemma try_execute_third:
  assumes "is_ProcessExecutionError e1" "execute_result env t c r = Inl e1"
    and "is_ProcessExecutionError e2" "execute_result env (t @ [Exec c r, Sleep 1]) c r = Inl e2"
    and "execute_result env (t @ [Exec c r, Sleep 1, Exec c r, Sleep 4]) c r = Inr out"
  shows "try_execute env c r t = (Inr True, t @ [Exec c r, Sleep 1, Exec c r, Sleep 4, Exec c r])"
proof -
  have "try_execute env c r t = try_execute_loop env c r 1 (t @ [Exec c r, Sleep 1])"
    unfolding try_execute_def using assms(2,1) by (rule try_execute_loop_retry0)
  also have "\<dots> = try_execute_loop env c r 2 ((t @ [Exec c r, Sleep 1]) @ [Exec c r, Sleep 4])"
    using assms(4,3) by (rule try_execute_loop_retry1)
  also have "\<dots> = (Inr True, ((t @ [Exec c r, Sleep 1]) @ [Exec c r, Sleep 4]) @ [Exec c r])"
    using assms(5) by (intro try_execute_loop_success) simp
  finally show ?thesis by simp
qed

lemma try_execute_exhausted:
  assumes "is_ProcessExecutionError e1" "execute_result env t c r = Inl e1"
    and "is_ProcessExecutionError e2" "execute_result env (t @ [Exec c r, Sleep 1]) c r = Inl e2"
    and "is_ProcessExecutionError e3"
      "execute_result env (t @ [Exec c r, Sleep 1, Exec c r, Sleep 4]) c r = Inl e3"
  shows "try_execute env c r t = (Inl e3, t @ [Exec c r, Sleep 1, Exec c r, Sleep 4, Exec c r])"
proof -
  have "try_execute env c r t = try_execute_loop env c r 1 (t @ [Exec c r, Sleep 1])"
    unfolding try_execute_def using assms(2,1) by (rule try_execute_loop_retry0)
  also have "\<dots> = try_execute_loop env c r 2 ((t @ [Exec c r, Sleep 1]) @ [Exec c r, Sleep 4])"
    using assms(4,3) by (rule try_execute_loop_retry1)
  also have "\<dots> = (Inl e3, ((t @ [Exec c r, Sleep 1]) @ [Exec c r, Sleep 4]) @ [Exec c r])"
    using assms(6,5) by (intro try_execute_loop_last) simp_all
  finally show ?thesis by simp
qed

lemma slept_append: "slept (t @ u) = slept t + slept u"
  by (induction t rule: slept.induct) simp_all


lemma image_size_example:
  "image_size_of_output ''virtual size: 100M (104857600 bytes)'' = Inr 104857600"
proof -
  have s1: "split_on CHR 0x0A ''virtual size: 100M (104857600 bytes)'' = [''virtual size: 100M (104857600 bytes)'']"
    by simp
  have s2: "split_on CHR '':'' ''virtual size: 100M (104857600 bytes)'' = [''virtual size'', '' 100M (104857600 bytes)'']"
    by simp
  have s3: "strip '' 100M (104857600 bytes)'' = ''100M (104857600 bytes)''"
    by (simp add: strip_def is_space_def)
  have s4: "split_on CHR ''('' ''100M (104857600 bytes)'' = [''100M '', ''104857600 bytes)'']"
    by simp
  have s5: "split_ws ''104857600 bytes)'' = [''104857600'', ''bytes)'']"
    by (simp add: split_ws_def is_space_def)
  have s6: "py_int ''104857600'' = Inr 104857600"
    by (simp add: py_int_def all_digits_def is_digit_def nat_of_digits_def digit_val_def)
  have lines: "image_size_lines [''virtual size: 100M (104857600 bytes)''] Map.empty =
      Inr [''virtual size'' \<mapsto> ''100M (104857600 bytes)'']"
    by (simp only: image_size_lines.simps s2 s3 list.case) simp
  show ?thesis
    unfolding image_size_of_output_def s1 lines
    by (simp add: s4 s5 s6)
qed

lemma format_d_example: "format_d 104857600 = ''104857600''"
  by (simp add: format_d_def dec_of_nat.simps digit_char_def)


lemma create_from_raw_after_size:
  assumes "LvmImage_image_size env base t0 = (Inr n, t)"
  shows "LvmImage_create_from_raw env vg lv lvm_path base t0 =
     (case try_execute env (lvcreate_command vg lv n) True t of
        (Inl e, t2) \<Rightarrow> (Inl e, t2)
      | (Inr ok, t2) \<Rightarrow>
          (map_sum id (\<lambda>out. ()) (execute_result env t2 [''qemu-img'', ''convert'', base, ''-O'', ''raw'', lvm_path] True),
           t2 @ [Exec [''qemu-img'', ''convert'', base, ''-O'', ''raw'', lvm_path] True]))"
  using assms
  by (simp add: LvmImage_create_from_raw_def utils_execute_def split: prod.splits sum.splits)

text \<open>
  Claim C4. \<^verbatim>\<open>__try_execute\<close> runs a command at most three times. An attempt that
  succeeds ends it with success; after a first \<^verbatim>\<open>ProcessExecutionError\<close> it sleeps
  1 second, after a second one 4 seconds, and a third one is raised again. So when the
  first two attempts fail and the third succeeds, the call succeeds and has slept
  1 + 4 seconds; when all three fail, the error of the third attempt is the result. The
  \<^verbatim>\<open>lvcreate\<close> call of \<^verbatim>\<open>LvmImage.create_from_raw\<close> is such a call: its error is the
  error of \<^verbatim>\<open>create_from_raw\<close>, and after its success \<^verbatim>\<open>create_from_raw\<close> goes on
  to convert the base image.
\<close>

theorem lvcreate_retried_three_times:
  "(\<forall>out. execute_result env t c r = Inr out \<longrightarrow>
        try_execute env c r t = (Inr True, t @ [Exec c r]))
   \<and> (\<forall>e1 out. is_ProcessExecutionError e1
        \<and> execute_result env t c r = Inl e1
        \<and> execute_result env (t @ [Exec c r, Sleep 1]) c r = Inr out \<longrightarrow>
        try_execute env c r t = (Inr True, t @ [Exec c r, Sleep 1, Exec c r]))
   \<and> (\<forall>e1 e2 out. is_ProcessExecutionError e1 \<and> is_ProcessExecutionError e2
        \<and> execute_result env t c r = Inl e1
        \<and> execute_result env (t @ [Exec c r, Sleep 1]) c r = Inl e2
        \<and> execute_result env (t @ [Exec c r, Sleep 1, Exec c r, Sleep 4]) c r = Inr out \<longrightarrow>
        try_execute env c r t = (Inr True, t @ [Exec c r, Sleep 1, Exec c r, Sleep 4, Exec c r])
        \<and> slept (snd (try_execute env c r t)) = slept t + (1 + 4))
   \<and> (\<forall>e1 e2 e3. is_ProcessExecutionError e1 \<and> is_ProcessExecutionError e2
        \<and> is_ProcessExecutionError e3
        \<and> execute_result env t c r = Inl e1
        \<and> execute_result env (t @ [Exec c r, Sleep 1]) c r = Inl e2
        \<and> execute_result env (t @ [Exec c r, Sleep 1, Exec c r, Sleep 4]) c r = Inl e3 \<longrightarrow>
        try_execute env c r t = (Inl e3, t @ [Exec c r, Sleep 1, Exec c r, Sleep 4, Exec c r]))
   \<and> (LvmImage_image_size env base t0 = (Inr n, t) \<and> c = lvcreate_command vg lv n \<and> r = True \<longrightarrow>
        (\<forall>e. fst (try_execute env c r t) = Inl e \<longrightarrow>
           LvmImage_create_from_raw env vg lv lvm_path base t0 = (Inl e, snd (try_execute env c r t)))
        \<and> (\<forall>ok. fst (try_execute env c r t) = Inr ok \<longrightarrow>
           LvmImage_create_from_raw env vg lv lvm_path base t0 =
             (map_sum id (\<lambda>out. ())
                (execute_result env (snd (try_execute env c r t))
                   [''qemu-img'', ''convert'', base, ''-O'', ''raw'', lvm_path] True),
              snd (try_execute env c r t)
                @ [Exec [''qemu-img'', ''convert'', base, ''-O'', ''raw'', lvm_path] True])))"
proof -
  have c1: "\<forall>out. execute_result env t c r = Inr out \<longrightarrow>
        try_execute env c r t = (Inr True, t @ [Exec c r])"
    by (simp add: try_execute_first)
  have c2: "\<forall>e1 out. is_ProcessExecutionError e1
        \<and> execute_result env t c r = Inl e1
        \<and> execute_result env (t @ [Exec c r, Sleep 1]) c r = Inr out \<longrightarrow>
        try_execute env c r t = (Inr True, t @ [Exec c r, Sleep 1, Exec c r])"
    using try_execute_second [of _ env t c r] by blast
  have c3: "\<forall>e1 e2 out. is_ProcessExecutionError e1 \<and> is_ProcessExecutionError e2
        \<and> execute_result env t c r = Inl e1
        \<and> execute_result env (t @ [Exec c r, Sleep 1]) c r = Inl e2
        \<and> execute_result env (t @ [Exec c r, Sleep 1, Exec c r, Sleep 4]) c r = Inr out \<longrightarrow>
        try_execute env c r t = (Inr True, t @ [Exec c r, Sleep 1, Exec c r, Sleep 4, Exec c r])
        \<and> slept (snd (try_execute env c r t)) = slept t + (1 + 4)"
  proof (intro allI impI)
    fix e1 e2 out
    assume a: "is_ProcessExecutionError e1 \<and> is_ProcessExecutionError e2
        \<and> execute_result env t c r = Inl e1
        \<and> execute_result env (t @ [Exec c r, Sleep 1]) c r = Inl e2
        \<and> execute_result env (t @ [Exec c r, Sleep 1, Exec c r, Sleep 4]) c r = Inr out"
    then have eq: "try_execute env c r t = (Inr True, t @ [Exec c r, Sleep 1, Exec c r, Sleep 4, Exec c r])"
      using try_execute_third [of e1 env t c r e2 out] by blast
    then show "try_execute env c r t = (Inr True, t @ [Exec c r, Sleep 1, Exec c r, Sleep 4, Exec c r])
        \<and> slept (snd (try_execute env c r t)) = slept t + (1 + 4)"
      by (simp add: slept_append)
  qed
  have c4: "\<forall>e1 e2 e3. is_ProcessExecutionError e1 \<and> is_ProcessExecutionError e2
        \<and> is_ProcessExecutionError e3
        \<and> execute_result env t c r = Inl e1
        \<and> execute_result env (t @ [Exec c r, Sleep 1]) c r = Inl e2
        \<and> execute_result env (t @ [Exec c r, Sleep 1, Exec c r, Sleep 4]) c r = Inl e3 \<longrightarrow>
        try_execute env c r t = (Inl e3, t @ [Exec c r, Sleep 1, Exec c r, Sleep 4, Exec c r])"
    using try_execute_exhausted [of _ env t c r] by blast
  have c5: "LvmImage_image_size env base t0 = (Inr n, t) \<and> c = lvcreate_command vg lv n \<and> r = True \<longrightarrow>
        (\<forall>e. fst (try_execute env c r t) = Inl e \<longrightarrow>
           LvmImage_create_from_raw env vg lv lvm_path base t0 = (Inl e, snd (try_execute env c r t)))
        \<and> (\<forall>ok. fst (try_execute env c r t) = Inr ok \<longrightarrow>
           LvmImage_create_from_raw env vg lv lvm_path base t0 =
             (map_sum id (\<lambda>out. ())
                (execute_result env (snd (try_execute env c r t))
                   [''qemu-img'', ''convert'', base, ''-O'', ''raw'', lvm_path] True),
              snd (try_execute env c r t)
                @ [Exec [''qemu-img'', ''convert'', base, ''-O'', ''raw'', lvm_path] True]))"
  proof (intro impI)
    assume a: "LvmImage_image_size env base t0 = (Inr n, t) \<and> c = lvcreate_command vg lv n \<and> r = True"
    then have sz: "LvmImage_image_size env base t0 = (Inr n, t)" by blast
    from a show "(\<forall>e. fst (try_execute env c r t) = Inl e \<longrightarrow>
           LvmImage_create_from_raw env vg lv lvm_path base t0 = (Inl e, snd (try_execute env c r t)))
        \<and> (\<forall>ok. fst (try_execute env c r t) = Inr ok \<longrightarrow>
           LvmImage_create_from_raw env vg lv lvm_path base t0 =
             (map_sum id (\<lambda>out. ())
                (execute_result env (snd (try_execute env c r t))
                   [''qemu-img'', ''convert'', base, ''-O'', ''raw'', lvm_path] True),
              snd (try_execute env c r t)
                @ [Exec [''qemu-img'', ''convert'', base, ''-O'', ''raw'', lvm_path] True]))"
      by (cases "try_execute env (lvcreate_command vg lv n) True t")
         (simp add: create_from_raw_after_size [OF sz])
  qed
  from c1 c2 c3 c4 c5 show ?thesis by (intro conjI)
qed


theorem lvcreate_retried_three_times_witness:
  "try_execute
     (scripted_env
        [([''lvcreate'', ''-L'', ''104857600b'', ''-n'', ''lv'', ''vg0''],
          [Inl (ProcessExecutionError ''first''), Inl (ProcessExecutionError ''second''),
           Inl (ProcessExecutionError ''third'')])] None None)
     [''lvcreate'', ''-L'', ''104857600b'', ''-n'', ''lv'', ''vg0''] True []
   = (Inl (ProcessExecutionError ''third''),
      [Exec [''lvcreate'', ''-L'', ''104857600b'', ''-n'', ''lv'', ''vg0''] True, Sleep 1,
       Exec [''lvcreate'', ''-L'', ''104857600b'', ''-n'', ''lv'', ''vg0''] True, Sleep 4,
       Exec [''lvcreate'', ''-L'', ''104857600b'', ''-n'', ''lv'', ''vg0''] True])
   \<and> LvmImage_create_from_raw
     (scripted_env
        [([''qemu-img'', ''info'', ''base.img''], [Inr (''virtual size: 100M (104857600 bytes)'', [])]),
         ([''lvcreate'', ''-L'', ''104857600b'', ''-n'', ''lv'', ''vg0''],
          [Inl (ProcessExecutionError ''first''), Inl (ProcessExecutionError ''second'')])] None None)
     ''vg0'' ''lv'' ''/dev/vg0/lv'' ''base.img'' []
   = (Inr (),
      [Exec [''qemu-img'', ''info'', ''base.img''] True,
       Exec [''lvcreate'', ''-L'', ''104857600b'', ''-n'', ''lv'', ''vg0''] True, Sleep 1,
       Exec [''lvcreate'', ''-L'', ''104857600b'', ''-n'', ''lv'', ''vg0''] True, Sleep 4,
       Exec [''lvcreate'', ''-L'', ''104857600b'', ''-n'', ''lv'', ''vg0''] True,
       Exec [''qemu-img'', ''convert'', ''base.img'', ''-O'', ''raw'', ''/dev/vg0/lv''] True])
   \<and> slept
      [Exec [''qemu-img'', ''info'', ''base.img''] True,
       Exec [''lvcreate'', ''-L'', ''104857600b'', ''-n'', ''lv'', ''vg0''] True, Sleep 1,
       Exec [''lvcreate'', ''-L'', ''104857600b'', ''-n'', ''lv'', ''vg0''] True, Sleep 4,
       Exec [''lvcreate'', ''-L'', ''104857600b'', ''-n'', ''lv'', ''vg0''] True,
       Exec [''qemu-img'', ''convert'', ''base.img'', ''-O'', ''raw'', ''/dev/vg0/lv''] True] = 5"
proof -
  let ?C = "[''lvcreate'', ''-L'', ''104857600b'', ''-n'', ''lv'', ''vg0'']"
  let ?I = "[''qemu-img'', ''info'', ''base.img'']"
  let ?e1 = "ProcessExecutionError ''first''"
  let ?e2 = "ProcessExecutionError ''second''"
  let ?e3 = "ProcessExecutionError ''third''"
  let ?E3 = "scripted_env [(?C, [Inl ?e1, Inl ?e2, Inl ?e3])] None None"
  let ?E2 = "scripted_env [(?I, [Inr (''virtual size: 100M (104857600 bytes)'', [])]),
         (?C, [Inl ?e1, Inl ?e2])] None None"
  have three: "is_ProcessExecutionError ?e1 \<and> is_ProcessExecutionError ?e2
        \<and> is_ProcessExecutionError ?e3
        \<and> execute_result ?E3 [] ?C True = Inl ?e1
        \<and> execute_result ?E3 ([] @ [Exec ?C True, Sleep 1]) ?C True = Inl ?e2
        \<and> execute_result ?E3 ([] @ [Exec ?C True, Sleep 1, Exec ?C True, Sleep 4]) ?C True = Inl ?e3"
    by (simp add: scripted_env_def)
  have w1: "try_execute ?E3 ?C True [] =
      (Inl ?e3, [] @ [Exec ?C True, Sleep 1, Exec ?C True, Sleep 4, Exec ?C True])"
    using lvcreate_retried_three_times [where env = ?E3 and t = "[]" and c = ?C and r = True,
        THEN conjunct2, THEN conjunct2, THEN conjunct2, THEN conjunct1, rule_format, OF three] .
  let ?t = "[Exec ?I True]"
  have size: "LvmImage_image_size ?E2 ''base.img'' [] = (Inr 104857600, ?t)"
    by (simp add: LvmImage_image_size_def utils_execute_def scripted_env_def image_size_example)
  have cmd: "?C = lvcreate_command ''vg0'' ''lv'' 104857600"
    by (simp add: lvcreate_command_def format_d_example)
  have two: "is_ProcessExecutionError ?e1 \<and> is_ProcessExecutionError ?e2
        \<and> execute_result ?E2 ?t ?C True = Inl ?e1
        \<and> execute_result ?E2 (?t @ [Exec ?C True, Sleep 1]) ?C True = Inl ?e2
        \<and> execute_result ?E2 (?t @ [Exec ?C True, Sleep 1, Exec ?C True, Sleep 4]) ?C True = Inr ([], [])"
    by (simp add: scripted_env_def)
  note inst = lvcreate_retried_three_times [where env = ?E2 and t = ?t and c = ?C and r = True
      and base = "''base.img''" and ?t0.0 = "[]" and n = 104857600 and vg = "''vg0''" and lv = "''lv''"
      and lvm_path = "''/dev/vg0/lv''"]
  have tried: "try_execute ?E2 ?C True ?t =
        (Inr True, ?t @ [Exec ?C True, Sleep 1, Exec ?C True, Sleep 4, Exec ?C True])"
    using inst [THEN conjunct2, THEN conjunct2, THEN conjunct1, rule_format, OF two] by blast
  have hyp5: "LvmImage_image_size ?E2 ''base.img'' [] = (Inr 104857600, ?t)
       \<and> ?C = lvcreate_command ''vg0'' ''lv'' 104857600 \<and> True = True"
    using size cmd by blast
  have ok: "fst (try_execute ?E2 ?C True ?t) = Inr True"
    by (simp only: tried fst_conv)
  have w2: "LvmImage_create_from_raw ?E2 ''vg0'' ''lv'' ''/dev/vg0/lv'' ''base.img'' [] =
      (map_sum id (\<lambda>out. ())
                (execute_result ?E2 (snd (try_execute ?E2 ?C True ?t))
                   [''qemu-img'', ''convert'', ''base.img'', ''-O'', ''raw'', ''/dev/vg0/lv''] True),
              snd (try_execute ?E2 ?C True ?t)
                @ [Exec [''qemu-img'', ''convert'', ''base.img'', ''-O'', ''raw'', ''/dev/vg0/lv''] True])"
    using inst [THEN conjunct2, THEN conjunct2, THEN conjunct2, THEN conjunct2, THEN mp, OF hyp5,
        THEN conjunct2, rule_format, OF ok] .
  have w2': "LvmImage_create_from_raw ?E2 ''vg0'' ''lv'' ''/dev/vg0/lv'' ''base.img'' [] =
      (Inr (), [Exec ?I True, Exec ?C True, Sleep 1, Exec ?C True, Sleep 4, Exec ?C True,
         Exec [''qemu-img'', ''convert'', ''base.img'', ''-O'', ''raw'', ''/dev/vg0/lv''] True])"
    unfolding w2 tried by (simp add: scripted_env_def)
  have w3: "slept [Exec ?I True, Exec ?C True, Sleep 1, Exec ?C True, Sleep 4, Exec ?C True,
         Exec [''qemu-img'', ''convert'', ''base.img'', ''-O'', ''raw'', ''/dev/vg0/lv''] True] = 5"
    by simp
  from w1 w2' w3 show ?thesis by simp
qed

subsection \<open>Creating an LVM snapshot\<close>

text \<open>
  Claim C3. \<^verbatim>\<open>LvmSnapshot.create\<close> on a domain that is active, without
  \<^verbatim>\<open>force_live_snapshot\<close>, raises the error "VM must be suspended before doing LVM
  snapshot" (the spec's PreconditionError; a \<^verbatim>\<open>RuntimeError\<close> in the source) and runs
  no tool: the trace is unchanged. In every other case it runs
  \<^verbatim>\<open>lvcreate -L<size>b -s -n <snapshot_name> <source_path>\<close> as root exactly once,
  with the size given to the constructor; the error of that run is the error of
  \<^verbatim>\<open>create\<close>, and on success \<^verbatim>\<open>create\<close> returns the snapshot.
\<close>

theorem lvm_snapshot_create_precondition:
  "(\<not> force_live_snapshot \<and> isActive virt_domain \<longrightarrow>
      create env (new_LvmSnapshot virt_domain volume_group snapshot_name snapshot_size source_path
                    force_live_snapshot) t
        = (Inl (RuntimeError ''VM must be suspended before doing LVM snapshot''), t))
   \<and> (force_live_snapshot \<or> \<not> isActive virt_domain \<longrightarrow>
      create env (new_LvmSnapshot virt_domain volume_group snapshot_name snapshot_size source_path
                    force_live_snapshot) t
        = (map_sum id
             (\<lambda>out. new_LvmSnapshot virt_domain volume_group snapshot_name snapshot_size source_path
                      force_live_snapshot)
             (execute_result env t
                [''lvcreate'', ''-L'' @ format_d snapshot_size @ ''b'', ''-s'', ''-n'',
                 snapshot_name, source_path] True),
           t @ [Exec [''lvcreate'', ''-L'' @ format_d snapshot_size @ ''b'', ''-s'', ''-n'',
                      snapshot_name, source_path] True]))"
  by (cases "execute_result env t
                [''lvcreate'', ''-L'' @ format_d snapshot_size @ ''b'', ''-s'', ''-n'',
                 snapshot_name, source_path] True")
     (auto simp: new_LvmSnapshot_def utils_execute_def lvm_snapshot_command_def)

theorem lvm_snapshot_create_precondition_witness:
  "create (scripted_env [] None None)
     (new_LvmSnapshot \<lparr>disk_sources = [], isActive = True\<rparr> ''vg0'' ''snap'' 104857600
        ''/dev/vg0/i1'' False) []
     = (Inl (RuntimeError ''VM must be suspended before doing LVM snapshot''), [])
   \<and> create (scripted_env [] None None)
     (new_LvmSnapshot \<lparr>disk_sources = [], isActive = True\<rparr> ''vg0'' ''snap'' 104857600
        ''/dev/vg0/i1'' True) []
     = (Inr (new_LvmSnapshot \<lparr>disk_sources = [], isActive = True\<rparr> ''vg0'' ''snap'' 104857600
        ''/dev/vg0/i1'' True),
        [Exec [''lvcreate'', ''-L104857600b'', ''-s'', ''-n'', ''snap'', ''/dev/vg0/i1''] True])
   \<and> create
     (scripted_env
        [([''lvcreate'', ''-L104857600b'', ''-s'', ''-n'', ''snap'', ''/dev/vg0/i1''],
          [Inl (ProcessExecutionError ''no space'')])] None None)
     (new_LvmSnapshot \<lparr>disk_sources = [], isActive = False\<rparr> ''vg0'' ''snap'' 104857600
        ''/dev/vg0/i1'' False) []
     = (Inl (ProcessExecutionError ''no space''),
        [Exec [''lvcreate'', ''-L104857600b'', ''-s'', ''-n'', ''snap'', ''/dev/vg0/i1''] True])"
proof -
  let ?A = "\<lparr>disk_sources = [], isActive = True\<rparr>"
  let ?B = "\<lparr>disk_sources = [], isActive = False\<rparr>"
  let ?C = "[''lvcreate'', ''-L104857600b'', ''-s'', ''-n'', ''snap'', ''/dev/vg0/i1'']"
  let ?E = "scripted_env [] None None"
  let ?F = "scripted_env [(?C, [Inl (ProcessExecutionError ''no space'')])] None None"
  have cmd: "[''lvcreate'', ''-L'' @ format_d 104857600 @ ''b'', ''-s'', ''-n'', ''snap'', ''/dev/vg0/i1''] = ?C"
    by (simp add: format_d_example)
  have h1: "\<not> False \<and> isActive ?A" by simp
  have h2: "True \<or> \<not> isActive ?A" by simp
  have h3: "False \<or> \<not> isActive ?B" by simp
  have w1: "create ?E (new_LvmSnapshot ?A ''vg0'' ''snap'' 104857600 ''/dev/vg0/i1'' False) []
     = (Inl (RuntimeError ''VM must be suspended before doing LVM snapshot''), [])"
    using lvm_snapshot_create_precondition [where env = ?E and virt_domain = ?A and t = "[]"
        and force_live_snapshot = False, THEN conjunct1, THEN mp, OF h1] .
  have w2: "create ?E (new_LvmSnapshot ?A ''vg0'' ''snap'' 104857600 ''/dev/vg0/i1'' True) []
     = (Inr (new_LvmSnapshot ?A ''vg0'' ''snap'' 104857600 ''/dev/vg0/i1'' True), [Exec ?C True])"
    using lvm_snapshot_create_precondition [where env = ?E and virt_domain = ?A and t = "[]"
        and force_live_snapshot = True and snapshot_size = 104857600 and snapshot_name = "''snap''"
        and source_path = "''/dev/vg0/i1''" and volume_group = "''vg0''",
        THEN conjunct2, THEN mp, OF h2]
    unfolding cmd by (simp add: scripted_env_def)
  have w3: "create ?F (new_LvmSnapshot ?B ''vg0'' ''snap'' 104857600 ''/dev/vg0/i1'' False) []
     = (Inl (ProcessExecutionError ''no space''), [Exec ?C True])"
    using lvm_snapshot_create_precondition [where env = ?F and virt_domain = ?B and t = "[]"
        and force_live_snapshot = False and snapshot_size = 104857600 and snapshot_name = "''snap''"
        and source_path = "''/dev/vg0/i1''" and volume_group = "''vg0''",
        THEN conjunct2, THEN mp, OF h3]
    unfolding cmd by (simp add: scripted_env_def)
  from w1 w2 w3 show ?thesis by (intro conjI)
qed

subsection \<open>Deleting a file image\<close>

text \<open>
  Claim C8. \<^verbatim>\<open>delete()\<close> of a \<^verbatim>\<open>RawImage\<close> or \<^verbatim>\<open>QcowImage\<close> returns normally
  whether \<^verbatim>\<open>os.remove\<close> removed the file or raised an \<^verbatim>\<open>OSError\<close> (the file does
  not exist, or cannot be removed): the error is logged and not raised. For an image
  with a path \<open>f\<close>, \<^verbatim>\<open>os.remove\<close> is the removal of \<open>f\<close> from the file system.
\<close>

theorem file_image_delete_swallows_OSError:
  "(self = RawImage p \<or> self = QcowImage p) \<longrightarrow>
     (\<forall>t1. os_remove env p t = (None, t1) \<longrightarrow> FileImage_delete env self t = (Inr (), t1))
     \<and> (\<forall>e t1. os_remove env p t = (Some e, t1) \<and> is_OSError e \<longrightarrow>
        FileImage_delete env self t =
          (Inr (), t1 @ [LogError (''Error during image delete: '' @ str_of_error e)]))
     \<and> (\<forall>f. p = Some f \<longrightarrow> os_remove env p t = (remove_result env t f, t @ [Remove f]))"
  by (auto simp: FileImage_delete_def os_remove_def)

theorem file_image_delete_swallows_OSError_witness:
  "FileImage_delete (scripted_env [] None None) (RawImage (Some ''/srv/i1/disk'')) []
     = (Inr (), [Remove ''/srv/i1/disk''])
   \<and> is_OSError (OSError ''[Errno 2] No such file or directory'')
   \<and> FileImage_delete (scripted_env [] (Some (OSError ''[Errno 2] No such file or directory'')) None)
        (QcowImage (Some ''/srv/i1/disk'')) []
     = (Inr (), [Remove ''/srv/i1/disk'',
                 LogError ''Error during image delete: [Errno 2] No such file or directory''])"
proof -
  let ?e = "OSError ''[Errno 2] No such file or directory''"
  let ?E = "scripted_env [] None None"
  let ?F = "scripted_env [] (Some ?e) None"
  let ?p = "Some ''/srv/i1/disk''"
  note raw = file_image_delete_swallows_OSError [where self = "RawImage ?p" and p = ?p
      and env = ?E and t = "[]", THEN mp, OF disjI1 [OF refl]]
  note qcow = file_image_delete_swallows_OSError [where self = "QcowImage ?p" and p = ?p
      and env = ?F and t = "[]", THEN mp, OF disjI2 [OF refl]]
  have r1: "os_remove ?E ?p [] = (None, [Remove ''/srv/i1/disk''])"
    using raw [THEN conjunct2, THEN conjunct2, rule_format, OF refl]
    by (simp add: scripted_env_def)
  have r2: "os_remove ?F ?p [] = (Some ?e, [Remove ''/srv/i1/disk'']) \<and> is_OSError ?e"
    using qcow [THEN conjunct2, THEN conjunct2, rule_format, OF refl]
    by (simp add: scripted_env_def)
  have w1: "FileImage_delete ?E (RawImage ?p) [] = (Inr (), [Remove ''/srv/i1/disk''])"
    using raw [THEN conjunct1, rule_format, OF r1] .
  have w2: "FileImage_delete ?F (QcowImage ?p) [] =
      (Inr (), [Remove ''/srv/i1/disk''] @ [LogError (''Error during image delete: '' @ str_of_error ?e)])"
    using qcow [THEN conjunct2, THEN conjunct1, rule_format, OF r2] .
  have o: "is_OSError ?e" by simp
  from w1 w2 o show ?thesis by simp
qed

subsection \<open>Deleting a logical volume\<close>






lemma lvm_delete_attr_fails:
  "execute_result env t [''lvdisplay'', p] True = Inr probe \<Longrightarrow>
   execute_result env (t @ [Exec [''lvdisplay'', p] True])
     [''lvdisplay'', ''--noheading'', ''-C'', ''-o'', ''Attr'', p] True = Inl e \<Longrightarrow>
   LvmImage_delete env p t =
     (Inl e, t @ [Exec [''lvdisplay'', p] True,
                  Exec [''lvdisplay'', ''--noheading'', ''-C'', ''-o'', ''Attr'', p] True])"
  by (simp add: LvmImage_delete_def volume_not_present_def utils_execute_def)








subsection \<open>A snapshot as the resource of a with statement\<close>

lemma create_adds_one_event:
  "create env mgr t = (Inr s, t1) \<Longrightarrow> \<exists>ev. t1 = t @ [ev]"
  by (cases mgr)
     (auto simp: snapshotCreateXML_def utils_execute_def split: sum.splits if_splits)

lemma delete_after_create:
  "create env mgr t = (Inr s, t1) \<Longrightarrow>
   \<exists>ev. is_delete_of s ev \<and> (\<forall>t2. snd (delete env s t2) = t2 @ [ev])"
  by (cases mgr)
     (auto simp: snapshotCreateXML_def utils_execute_def libvirt_snapshot_delete_def
           split: sum.splits if_splits option.splits)

lemma with_snapshot_entered:
  "create env mgr t = (Inr s, t1) \<Longrightarrow> block s t1 = (r, t2) \<Longrightarrow>
   with_snapshot env mgr block t =
     (case fst (delete env s t2) of
        Inl e' \<Rightarrow> Inl e'
      | Inr u \<Rightarrow> map_sum id Some r,
      snd (delete env s t2))"
  by (cases r; cases "delete env s t2"; cases "fst (delete env s t2)")
     (auto simp: with_snapshot_def snapshot_enter_def snapshot_exit_def)

text \<open>
  Claim C7 (as amended). In \<^verbatim>\<open>with snapshot as s: block\<close>, \<^verbatim>\<open>create()\<close> runs
  first; when it raises, the statement raises that error and nothing else runs. When it
  returns, it has left one event, the block runs, and after the block, whether it
  returned or raised, \<^verbatim>\<open>delete()\<close> runs exactly once: the trace of the statement is
  the trace of the block followed by the one event of this snapshot's \<^verbatim>\<open>delete()\<close>.
  When \<^verbatim>\<open>delete()\<close> returns, the result of the statement is the result of the
  block: its value, or the exception it raised. When \<^verbatim>\<open>delete()\<close> itself raises, its
  exception is the result of the statement, also in place of an exception of the block.
\<close>

theorem snapshot_scope_deletes_once:
  "(\<forall>e t1. create env mgr t = (Inl e, t1) \<longrightarrow> with_snapshot env mgr block t = (Inl e, t1))
   \<and> (\<forall>s t1 r t2. create env mgr t = (Inr s, t1) \<and> block s t1 = (r, t2) \<longrightarrow>
         (\<exists>ev. t1 = t @ [ev])
         \<and> (\<exists>ev. is_delete_of s ev \<and> snd (with_snapshot env mgr block t) = t2 @ [ev])
         \<and> snd (with_snapshot env mgr block t) = snd (delete env s t2)
         \<and> (fst (delete env s t2) = Inr () \<longrightarrow>
              fst (with_snapshot env mgr block t) = map_sum id Some r)
         \<and> (\<forall>e'. fst (delete env s t2) = Inl e' \<longrightarrow>
              fst (with_snapshot env mgr block t) = Inl e'))"
proof -
  have entry: "\<forall>e t1. create env mgr t = (Inl e, t1) \<longrightarrow> with_snapshot env mgr block t = (Inl e, t1)"
    by (simp add: with_snapshot_def snapshot_enter_def)
  have scope: "(\<exists>ev. t1 = t @ [ev])
         \<and> (\<exists>ev. is_delete_of s ev \<and> snd (with_snapshot env mgr block t) = t2 @ [ev])
         \<and> snd (with_snapshot env mgr block t) = snd (delete env s t2)
         \<and> (fst (delete env s t2) = Inr () \<longrightarrow>
              fst (with_snapshot env mgr block t) = map_sum id Some r)
         \<and> (\<forall>e'. fst (delete env s t2) = Inl e' \<longrightarrow>
              fst (with_snapshot env mgr block t) = Inl e')"
    if c: "create env mgr t = (Inr s, t1)" and b: "block s t1 = (r, t2)" for s t1 r t2
  proof -
    note w = with_snapshot_entered [where block = block, OF c b]
    from delete_after_create [OF c] obtain ev where
      ev: "is_delete_of s ev" "snd (delete env s t2) = t2 @ [ev]" by blast
    have "\<exists>ev. is_delete_of s ev \<and> snd (with_snapshot env mgr block t) = t2 @ [ev]"
      using ev by (auto simp: w)
    moreover have "snd (with_snapshot env mgr block t) = snd (delete env s t2)"
      by (simp add: w)
    moreover have "fst (delete env s t2) = Inr () \<longrightarrow>
              fst (with_snapshot env mgr block t) = map_sum id Some r"
      by (simp add: w)
    moreover have "\<forall>e'. fst (delete env s t2) = Inl e' \<longrightarrow>
              fst (with_snapshot env mgr block t) = Inl e'"
      by (simp add: w)
    ultimately show ?thesis using create_adds_one_event [OF c] by blast
  qed
  from entry scope show ?thesis by blast
qed


theorem snapshot_scope_deletes_once_witness:
  "with_snapshot
     (scripted_env
        [([''dd'', ''if=/dev/vg0/snap'', ''of=/tmp/snap.raw'', ''bs=1M''],
          [Inl (ProcessExecutionError ''dd failed'')])] None None)
     (new_LvmSnapshot \<lparr>disk_sources = [], isActive = True\<rparr> ''vg0'' ''snap'' 104857600
        ''/dev/vg0/i1'' True)
     (convert_to_raw
        (scripted_env
           [([''dd'', ''if=/dev/vg0/snap'', ''of=/tmp/snap.raw'', ''bs=1M''],
             [Inl (ProcessExecutionError ''dd failed'')])] None None)
        ''/tmp/snap.raw'') []
   = (Inl (ProcessExecutionError ''dd failed''),
      [Exec [''lvcreate'', ''-L104857600b'', ''-s'', ''-n'', ''snap'', ''/dev/vg0/i1''] True,
       Exec [''dd'', ''if=/dev/vg0/snap'', ''of=/tmp/snap.raw'', ''bs=1M''] True,
       Exec [''lvremove'', ''-f'', ''/dev/vg0/snap''] True])
   \<and> with_snapshot (scripted_env [] None None)
     (new_QcowSnapshot \<lparr>disk_sources = [], isActive = True\<rparr> ''snap'' ''/srv/i1/disk'')
     (convert_to_raw (scripted_env [] None None) ''/tmp/snap.raw'') []
   = (Inr (Some ()),
      [SnapshotCreateXML (snapshot_description ''snap''),
       Exec [''qemu-img'', ''convert'', ''-f'', ''qcow2'', ''-O'', ''raw'', ''-s'', ''snap.raw'',
             ''/srv/i1/disk'', ''/tmp/snap.raw''] True,
       SnapshotDelete 0])
   \<and> with_snapshot (scripted_env [] None None)
     (new_LvmSnapshot \<lparr>disk_sources = [], isActive = True\<rparr> ''vg0'' ''snap'' 104857600
        ''/dev/vg0/i1'' False)
     (convert_to_raw (scripted_env [] None None) ''/tmp/snap.raw'') []
   = (Inl (RuntimeError ''VM must be suspended before doing LVM snapshot''), [])"
proof -
  let ?D = "\<lparr>disk_sources = [], isActive = True\<rparr>"
  let ?dd = "[''dd'', ''if=/dev/vg0/snap'', ''of=/tmp/snap.raw'', ''bs=1M'']"
  let ?lc = "[''lvcreate'', ''-L104857600b'', ''-s'', ''-n'', ''snap'', ''/dev/vg0/i1'']"
  let ?E1 = "scripted_env [(?dd, [Inl (ProcessExecutionError ''dd failed'')])] None None"
  let ?E = "scripted_env [] None None"
  let ?L = "LvmSnapshot ?D ''snap'' ''/dev/vg0/snap'' 104857600 ''/dev/vg0/i1'' True"
  have newL: "new_LvmSnapshot ?D ''vg0'' ''snap'' 104857600 ''/dev/vg0/i1'' True = ?L"
    by (simp add: new_LvmSnapshot_def os_path_join_def join_step_def)
  have w1: "with_snapshot ?E1 ?L (convert_to_raw ?E1 ''/tmp/snap.raw'') [] =
      (Inl (ProcessExecutionError ''dd failed''),
       [Exec ?lc True, Exec ?dd True, Exec [''lvremove'', ''-f'', ''/dev/vg0/snap''] True])"
  proof -
    have c: "create ?E1 ?L [] = (Inr ?L, [Exec ?lc True])"
      by (simp add: utils_execute_def lvm_snapshot_command_def format_d_example scripted_env_def)
    have b: "convert_to_raw ?E1 ''/tmp/snap.raw'' ?L [Exec ?lc True] =
        (Inl (ProcessExecutionError ''dd failed''), [Exec ?lc True, Exec ?dd True])"
      by (simp add: utils_execute_def scripted_env_def)
    have d: "delete ?E1 ?L [Exec ?lc True, Exec ?dd True] =
        (Inr (), [Exec ?lc True, Exec ?dd True, Exec [''lvremove'', ''-f'', ''/dev/vg0/snap''] True])"
      by (simp add: utils_execute_def scripted_env_def)
    note scope = snapshot_scope_deletes_once [where env = ?E1 and mgr = ?L and t = "[]"
        and block = "convert_to_raw ?E1 ''/tmp/snap.raw''", THEN conjunct2, rule_format,
        OF conjI [OF c b]]
    from scope have "snd (with_snapshot ?E1 ?L (convert_to_raw ?E1 ''/tmp/snap.raw'') []) =
        snd (delete ?E1 ?L [Exec ?lc True, Exec ?dd True])"
      by blast
    then have "snd (with_snapshot ?E1 ?L (convert_to_raw ?E1 ''/tmp/snap.raw'') []) =
        [Exec ?lc True, Exec ?dd True, Exec [''lvremove'', ''-f'', ''/dev/vg0/snap''] True]"
      by (simp only: d snd_conv)
    moreover from scope d have "fst (with_snapshot ?E1 ?L (convert_to_raw ?E1 ''/tmp/snap.raw'') []) =
        map_sum id Some (Inl (ProcessExecutionError ''dd failed''))"
      by simp
    ultimately show ?thesis by (simp add: prod_eq_iff)
  qed
  let ?Q = "QcowSnapshot ?D ''snap'' ''/srv/i1/disk''"
  let ?cv = "[''qemu-img'', ''convert'', ''-f'', ''qcow2'', ''-O'', ''raw'', ''-s'', ''snap.raw'',
             ''/srv/i1/disk'', ''/tmp/snap.raw'']"
  let ?sc = "SnapshotCreateXML (snapshot_description ''snap'')"
  have w2: "with_snapshot ?E (?Q None) (convert_to_raw ?E ''/tmp/snap.raw'') [] =
      (Inr (Some ()), [?sc, Exec ?cv True, SnapshotDelete 0])"
  proof -
    have c: "create ?E (?Q None) [] = (Inr (?Q (Some 0)), [?sc])"
      by (simp add: snapshotCreateXML_def scripted_env_def)
    have b: "convert_to_raw ?E ''/tmp/snap.raw'' (?Q (Some 0)) [?sc] = (Inr (), [?sc, Exec ?cv True])"
      by (simp add: libvirt_convert_to_raw_def utils_execute_def scripted_env_def os_path_basename_def)
    have d: "delete ?E (?Q (Some 0)) [?sc, Exec ?cv True] =
        (Inr (), [?sc, Exec ?cv True, SnapshotDelete 0])"
      by (simp add: libvirt_snapshot_delete_def scripted_env_def)
    note scope = snapshot_scope_deletes_once [where env = ?E and mgr = "?Q None" and t = "[]"
        and block = "convert_to_raw ?E ''/tmp/snap.raw''", THEN conjunct2, rule_format,
        OF conjI [OF c b]]
    from scope have "snd (with_snapshot ?E (?Q None) (convert_to_raw ?E ''/tmp/snap.raw'') []) =
        snd (delete ?E (?Q (Some 0)) [?sc, Exec ?cv True])"
      by blast
    then have "snd (with_snapshot ?E (?Q None) (convert_to_raw ?E ''/tmp/snap.raw'') []) =
        [?sc, Exec ?cv True, SnapshotDelete 0]"
      by (simp only: d snd_conv)
    moreover from scope d have "fst (with_snapshot ?E (?Q None) (convert_to_raw ?E ''/tmp/snap.raw'') []) =
        map_sum id Some (Inr ())"
      by simp
    ultimately show ?thesis by (simp add: prod_eq_iff)
  qed
  let ?N = "LvmSnapshot ?D ''snap'' ''/dev/vg0/snap'' 104857600 ''/dev/vg0/i1'' False"
  have newN: "new_LvmSnapshot ?D ''vg0'' ''snap'' 104857600 ''/dev/vg0/i1'' False = ?N"
    by (simp add: new_LvmSnapshot_def os_path_join_def join_step_def)
  have w3: "with_snapshot ?E ?N (convert_to_raw ?E ''/tmp/snap.raw'') [] =
      (Inl (RuntimeError ''VM must be suspended before doing LVM snapshot''), [])"
  proof -
    have c: "create ?E ?N [] = (Inl (RuntimeError ''VM must be suspended before doing LVM snapshot''), [])"
      by simp
    from snapshot_scope_deletes_once [where env = ?E and mgr = ?N and t = "[]"
        and block = "convert_to_raw ?E ''/tmp/snap.raw''", THEN conjunct1, rule_format, OF c]
    show ?thesis .
  qed
  from w1 w2 w3 show ?thesis
    by (simp only: newL newN new_QcowSnapshot_def)
qed

text \<open>
  The claim C7 as stated fails when \<^verbatim>\<open>delete()\<close> raises too. The block
  (\<^verbatim>\<open>convert_to_raw\<close>) raises the error of \<^verbatim>\<open>dd\<close>; on exit \<^verbatim>\<open>delete()\<close> runs
  \<^verbatim>\<open>lvremove\<close>, which fails; the error of \<^verbatim>\<open>lvremove\<close> is what the statement raises,
  not the original error of the block.
\<close>

theorem snapshot_scope_counterexample:
  "convert_to_raw
     (scripted_env
        [([''dd'', ''if=/dev/vg0/snap'', ''of=/tmp/snap.raw'', ''bs=1M''],
          [Inl (ProcessExecutionError ''dd failed'')]),
         ([''lvremove'', ''-f'', ''/dev/vg0/snap''],
          [Inl (ProcessExecutionError ''snapshot busy'')])] None None)
     ''/tmp/snap.raw''
     (LvmSnapshot \<lparr>disk_sources = [], isActive = True\<rparr> ''snap'' ''/dev/vg0/snap'' 104857600
        ''/dev/vg0/i1'' True)
     [Exec [''lvcreate'', ''-L104857600b'', ''-s'', ''-n'', ''snap'', ''/dev/vg0/i1''] True]
   = (Inl (ProcessExecutionError ''dd failed''),
      [Exec [''lvcreate'', ''-L104857600b'', ''-s'', ''-n'', ''snap'', ''/dev/vg0/i1''] True,
       Exec [''dd'', ''if=/dev/vg0/snap'', ''of=/tmp/snap.raw'', ''bs=1M''] True])
   \<and> with_snapshot
     (scripted_env
        [([''dd'', ''if=/dev/vg0/snap'', ''of=/tmp/snap.raw'', ''bs=1M''],
          [Inl (ProcessExecutionError ''dd failed'')]),
         ([''lvremove'', ''-f'', ''/dev/vg0/snap''],
          [Inl (ProcessExecutionError ''snapshot busy'')])] None None)
     (LvmSnapshot \<lparr>disk_sources = [], isActive = True\<rparr> ''snap'' ''/dev/vg0/snap'' 104857600
        ''/dev/vg0/i1'' True)
     (convert_to_raw
        (scripted_env
           [([''dd'', ''if=/dev/vg0/snap'', ''of=/tmp/snap.raw'', ''bs=1M''],
             [Inl (ProcessExecutionError ''dd failed'')]),
            ([''lvremove'', ''-f'', ''/dev/vg0/snap''],
             [Inl (ProcessExecutionError ''snapshot busy'')])] None None)
        ''/tmp/snap.raw'') []
   = (Inl (ProcessExecutionError ''snapshot busy''),
      [Exec [''lvcreate'', ''-L104857600b'', ''-s'', ''-n'', ''snap'', ''/dev/vg0/i1''] True,
       Exec [''dd'', ''if=/dev/vg0/snap'', ''of=/tmp/snap.raw'', ''bs=1M''] True,
       Exec [''lvremove'', ''-f'', ''/dev/vg0/snap''] True])"
proof -
  let ?D = "\<lparr>disk_sources = [], isActive = True\<rparr>"
  let ?dd = "[''dd'', ''if=/dev/vg0/snap'', ''of=/tmp/snap.raw'', ''bs=1M'']"
  let ?rm = "[''lvremove'', ''-f'', ''/dev/vg0/snap'']"
  let ?lc = "[''lvcreate'', ''-L104857600b'', ''-s'', ''-n'', ''snap'', ''/dev/vg0/i1'']"
  let ?E = "scripted_env [(?dd, [Inl (ProcessExecutionError ''dd failed'')]),
         (?rm, [Inl (ProcessExecutionError ''snapshot busy'')])] None None"
  let ?L = "LvmSnapshot ?D ''snap'' ''/dev/vg0/snap'' 104857600 ''/dev/vg0/i1'' True"
  have c: "create ?E ?L [] = (Inr ?L, [Exec ?lc True])"
    by (simp add: utils_execute_def lvm_snapshot_command_def format_d_example scripted_env_def)
  have b: "convert_to_raw ?E ''/tmp/snap.raw'' ?L [Exec ?lc True] =
      (Inl (ProcessExecutionError ''dd failed''), [Exec ?lc True, Exec ?dd True])"
    by (simp add: utils_execute_def scripted_env_def)
  have d: "delete ?E ?L [Exec ?lc True, Exec ?dd True] =
      (Inl (ProcessExecutionError ''snapshot busy''), [Exec ?lc True, Exec ?dd True, Exec ?rm True])"
    by (simp add: utils_execute_def scripted_env_def)
  have w: "with_snapshot ?E ?L (convert_to_raw ?E ''/tmp/snap.raw'') [] =
      (Inl (ProcessExecutionError ''snapshot busy''), [Exec ?lc True, Exec ?dd True, Exec ?rm True])"
    unfolding with_snapshot_entered [where block = "convert_to_raw ?E ''/tmp/snap.raw''", OF c b] d
    by simp
  from b w show ?thesis by (intro conjI)
qed

subsection \<open>Reading the size of an image\<close>



lemma split_at_space_nonempty: "split_at_space s \<noteq> []"
  by (induction s) (auto split: list.splits)



























end
